theory Spec2Isabelle
  imports Complex_Main "HOL-Library.Multiset" "HOL-Library.Word"
begin

chapter \<open>KOSMIndoorMap: OSM elements, hit detection, navigation mesh input, floor level changes\<close>

section \<open>OSM data model (osm/datatypes.h, osm/element.h)\<close>

text \<open>
  \<^verbatim>\<open>OSM::Id\<close> is \<^verbatim>\<open>int64_t\<close>. Identifiers are only compared and tested against
  zero, never computed with, so they are modelled as \<^typ>\<open>int\<close>.
\<close>

type_synonym Id = int

text \<open>Coordinates are stored as \<^verbatim>\<open>int32_t\<close>; the default constructed value is the
  invalid coordinate with both components \<^verbatim>\<open>INT32_MAX\<close>.\<close>

record Coordinate =
  latitude :: int
  longitude :: int

definition INT32_MAX :: int where
  "INT32_MAX = 2147483647"

definition Coordinate_default :: Coordinate where
  "Coordinate_default = \<lparr>latitude = INT32_MAX, longitude = INT32_MAX\<rparr>"

record BoundingBox =
  bbox_min :: Coordinate
  bbox_max :: Coordinate

definition BoundingBox_default :: BoundingBox where
  "BoundingBox_default = \<lparr>bbox_min = Coordinate_default, bbox_max = Coordinate_default\<rparr>"

record Tag =
  tag_key :: string
  tag_value :: string

record Node =
  node_id :: Id
  node_coordinate :: Coordinate
  node_tags :: "Tag list"

record Way =
  way_id :: Id
  way_bbox :: BoundingBox
  way_nodes :: "Id list"
  way_tags :: "Tag list"

datatype Type = TNull | TNode | TWay | TRelation

record Member =
  member_id :: Id
  member_role :: string
  member_type :: Type

record Relation =
  relation_id :: Id
  relation_bbox :: BoundingBox
  relation_members :: "Member list"
  relation_tags :: "Tag list"

record DataSet =
  ds_nodes :: "Node list"
  ds_ways :: "Way list"
  ds_relations :: "Relation list"

text \<open>\<^verbatim>\<open>OSM::Element\<close> is a tagged pointer to a node, way or relation; the tag
  \<^verbatim>\<open>Type::Null\<close> goes with the null pointer.\<close>

datatype Element = Null | NodeElement Node | WayElement Way | RelationElement Relation

fun element_type :: "Element \<Rightarrow> Type" where
  "element_type Null = TNull"
| "element_type (NodeElement n) = TNode"
| "element_type (WayElement w) = TWay"
| "element_type (RelationElement r) = TRelation"

text \<open>\<^verbatim>\<open>OSM::tagValue(elem, key)\<close>: \<^verbatim>\<open>std::find_if\<close> over the tag vector; the value of
  the first tag with that key, the empty string when there is none.\<close>

fun tagValue :: "Tag list \<Rightarrow> string \<Rightarrow> string" where
  "tagValue [] k = []"
| "tagValue (t # ts) k = (if tag_key t = k then tag_value t else tagValue ts k)"

text \<open>Modelled from the spec: the lookup by interned \<^verbatim>\<open>TagKey\<close> and the locale
  qualified lookup are declared in a version of \<^verbatim>\<open>datatypes.h\<close> that is not part of the
  sources. An interned key stands for its name; the locale qualified lookup "tries
  \<^verbatim>\<open>key:language_Region\<close>, then \<^verbatim>\<open>key:language\<close>, then \<^verbatim>\<open>key\<close>".\<close>

record Locale =
  locale_language :: string
  locale_region :: string

definition tagValue_key :: "Tag list \<Rightarrow> string \<Rightarrow> string" where
  "tagValue_key ts k = tagValue ts k"

definition tagValue_locale :: "Tag list \<Rightarrow> string \<Rightarrow> Locale \<Rightarrow> string" where
  "tagValue_locale ts k loc =
     (let v1 = tagValue ts (k @ '':'' @ locale_language loc @ ''_'' @ locale_region loc) in
      if v1 \<noteq> [] then v1
      else let v2 = tagValue ts (k @ '':'' @ locale_language loc) in
        if v2 \<noteq> [] then v2 else tagValue ts k)"

text \<open>Helpers of the data classes that \<^verbatim>\<open>element.cpp\<close> calls and whose bodies are not
  part of the sources (\<^verbatim>\<open>BoundingBox::center\<close>, \<^verbatim>\<open>Node::url\<close>, \<^verbatim>\<open>Way::url\<close>,
  \<^verbatim>\<open>Relation::url\<close>) are parameters of the model.\<close>

record osm_helpers =
  bboxCenter :: "BoundingBox \<Rightarrow> Coordinate"
  nodeUrl :: "Node \<Rightarrow> string"
  wayUrl :: "Way \<Rightarrow> string"
  relationUrl :: "Relation \<Rightarrow> string"

subsection \<open>Element accessors (osm/element.cpp)\<close>

fun element_id :: "Element \<Rightarrow> Id" where
  "element_id Null = 0"
| "element_id (NodeElement n) = node_id n"
| "element_id (WayElement w) = way_id w"
| "element_id (RelationElement r) = relation_id r"

fun center :: "osm_helpers \<Rightarrow> Element \<Rightarrow> Coordinate" where
  "center h Null = Coordinate_default"
| "center h (NodeElement n) = node_coordinate n"
| "center h (WayElement w) = bboxCenter h (way_bbox w)"
| "center h (RelationElement r) = bboxCenter h (relation_bbox r)"

fun boundingBox :: "Element \<Rightarrow> BoundingBox" where
  "boundingBox Null = BoundingBox_default"
| "boundingBox (NodeElement n) = \<lparr>bbox_min = node_coordinate n, bbox_max = node_coordinate n\<rparr>"
| "boundingBox (WayElement w) = way_bbox w"
| "boundingBox (RelationElement r) = relation_bbox r"

fun element_tagValue_key :: "Element \<Rightarrow> string \<Rightarrow> string" where
  "element_tagValue_key Null k = []"
| "element_tagValue_key (NodeElement n) k = tagValue_key (node_tags n) k"
| "element_tagValue_key (WayElement w) k = tagValue_key (way_tags w) k"
| "element_tagValue_key (RelationElement r) k = tagValue_key (relation_tags r) k"

fun element_tagValue :: "Element \<Rightarrow> string \<Rightarrow> string" where
  "element_tagValue Null k = []"
| "element_tagValue (NodeElement n) k = tagValue (node_tags n) k"
| "element_tagValue (WayElement w) k = tagValue (way_tags w) k"
| "element_tagValue (RelationElement r) k = tagValue (relation_tags r) k"

fun element_tagValue_locale :: "Element \<Rightarrow> string \<Rightarrow> Locale \<Rightarrow> string" where
  "element_tagValue_locale Null k loc = []"
| "element_tagValue_locale (NodeElement n) k loc = tagValue_locale (node_tags n) k loc"
| "element_tagValue_locale (WayElement w) k loc = tagValue_locale (way_tags w) k loc"
| "element_tagValue_locale (RelationElement r) k loc = tagValue_locale (relation_tags r) k loc"

fun url :: "osm_helpers \<Rightarrow> Element \<Rightarrow> string" where
  "url h Null = []"
| "url h (NodeElement n) = nodeUrl h n"
| "url h (WayElement w) = wayUrl h w"
| "url h (RelationElement r) = relationUrl h r"

subsection \<open>Outer path and multipolygon stitching (osm/element.cpp)\<close>

text \<open>
  The node and way vectors of a data set are sorted by id. \<^verbatim>\<open>std::lower_bound\<close> returns
  the position of the first element that is not less than the key, which on a sorted
  vector is the first element from the left whose id is not below the key; the caller then
  compares the id found with the key.
\<close>

definition findNode :: "DataSet \<Rightarrow> Id \<Rightarrow> Node option" where
  "findNode ds i =
     (case dropWhile (\<lambda>n. node_id n < i) (ds_nodes ds) of
        [] \<Rightarrow> None
      | n # _ \<Rightarrow> if node_id n \<noteq> i then None else Some n)"

definition findWay :: "DataSet \<Rightarrow> Id \<Rightarrow> Way option" where
  "findWay ds i =
     (case dropWhile (\<lambda>w. way_id w < i) (ds_ways ds) of
        [] \<Rightarrow> None
      | w # _ \<Rightarrow> if way_id w \<noteq> i then None else Some w)"

text \<open>\<^verbatim>\<open>appendNodesFromWay\<close>: every node id that resolves is appended, the others are
  skipped.\<close>

fun appendNodesFromWay :: "DataSet \<Rightarrow> Node list \<Rightarrow> Id list \<Rightarrow> Node list" where
  "appendNodesFromWay ds nodes [] = nodes"
| "appendNodesFromWay ds nodes (i # ids) =
     (case findNode ds i of
        None \<Rightarrow> appendNodesFromWay ds nodes ids
      | Some n \<Rightarrow> appendNodesFromWay ds (nodes @ [n]) ids)"

text \<open>
  \<^verbatim>\<open>appendNextPath\<close> scans the ways after the first one (\<^verbatim>\<open>std::next(ways.begin())\<close>)
  for one that starts or ends at \<^verbatim>\<open>startNode\<close>, appends its nodes forwards or backwards,
  erases it from the vector and returns the id of its other end; it returns \<^verbatim>\<open>0\<close> when
  the vector is empty or no way matches. The result is the returned id together with the
  two vectors the function updates in place. \<^verbatim>\<open>scanNextPath\<close> is the \<^verbatim>\<open>for\<close> loop:
  \<open>pre\<close> holds the ways already passed by the iterator.
  The ways in the vector have at least one node (asserted in the source, ensured by the
  caller), so \<^verbatim>\<open>front()\<close> and \<^verbatim>\<open>back()\<close> are \<^const>\<open>hd\<close> and \<^const>\<open>last\<close>.
\<close>

fun scanNextPath ::
  "DataSet \<Rightarrow> Node list \<Rightarrow> Id \<Rightarrow> Way list \<Rightarrow> Way list \<Rightarrow> Id \<times> Node list \<times> Way list" where
  "scanNextPath ds nodes startNode pre [] = (0, nodes, pre)"
| "scanNextPath ds nodes startNode pre (w # ws) =
     (if hd (way_nodes w) = startNode then
        (last (way_nodes w), appendNodesFromWay ds nodes (way_nodes w), pre @ ws)
      else if last (way_nodes w) = startNode then
        (hd (way_nodes w), appendNodesFromWay ds nodes (rev (way_nodes w)), pre @ ws)
      else scanNextPath ds nodes startNode (pre @ [w]) ws)"

definition appendNextPath ::
  "DataSet \<Rightarrow> Node list \<Rightarrow> Id \<Rightarrow> Way list \<Rightarrow> Id \<times> Node list \<times> Way list" where
  "appendNextPath ds nodes startNode ways =
     (case ways of
        [] \<Rightarrow> (0, nodes, ways)
      | w # ws \<Rightarrow> scanNextPath ds nodes startNode [w] ws)"

lemma scanNextPath_length:
  "scanNextPath ds nodes s pre ws = (l, nodes', ways') \<Longrightarrow>
   length ways' \<le> length pre + length ws \<and> (l \<noteq> 0 \<longrightarrow> length ways' < length pre + length ws)"
proof (induction ws arbitrary: pre)
  case Nil
  then show ?case by simp
next
  case (Cons w ws)
  show ?case
  proof (cases "hd (way_nodes w) = s \<or> last (way_nodes w) = s")
    case True
    then show ?thesis using Cons.prems by (auto split: if_splits)
  next
    case False
    then have "scanNextPath ds nodes s (pre @ [w]) ws = (l, nodes', ways')"
      using Cons.prems by simp
    from Cons.IH [OF this] show ?thesis by simp
  qed
qed

lemma appendNextPath_length:
  "appendNextPath ds nodes s ways = (l, nodes', ways') \<Longrightarrow>
   length ways' \<le> length ways \<and> (l \<noteq> 0 \<longrightarrow> length ways' < length ways)"
  unfolding appendNextPath_def
  by (cases ways) (auto dest: scanNextPath_length)

text \<open>The \<^verbatim>\<open>do ... while (lastNode && lastNode != startNode)\<close> loop of
  \<^verbatim>\<open>Element::outerPath\<close>.\<close>

function stitchLoop ::
  "DataSet \<Rightarrow> Node list \<Rightarrow> Id \<Rightarrow> Id \<Rightarrow> Way list \<Rightarrow> Node list \<times> Way list" where
  "stitchLoop ds nodes startNode lastNode ways =
     (case appendNextPath ds nodes lastNode ways of
        (l, nodes', ways') \<Rightarrow>
          if l \<noteq> 0 \<and> l \<noteq> startNode then stitchLoop ds nodes' startNode l ways'
          else (nodes', ways'))"
  by pat_completeness auto
termination
  apply (relation "measure (\<lambda>(ds, nodes, s, l, ways). length ways)")
   apply simp
  apply (auto dest!: appendNextPath_length [OF sym])
  done

declare stitchLoop.simps [simp del]

lemma stitchLoop_length:
  "stitchLoop ds nodes s l ways = (nodes', ways') \<Longrightarrow> length ways' \<le> length ways"
proof (induction ds nodes s l ways arbitrary: nodes' ways' rule: stitchLoop.induct)
  case (1 ds nodes s l ways)
  obtain l1 n1 w1 where a: "appendNextPath ds nodes l ways = (l1, n1, w1)"
    by (cases "appendNextPath ds nodes l ways") auto
  have le: "length w1 \<le> length ways"
    using appendNextPath_length [OF a] by simp
  show ?case
  proof (cases "l1 \<noteq> 0 \<and> l1 \<noteq> s")
    case True
    then have "stitchLoop ds n1 s l1 w1 = (nodes', ways')"
      using "1.prems" a by (simp add: stitchLoop.simps [of ds nodes])
    then have "length ways' \<le> length w1"
      using "1.IH" [OF a [symmetric] refl True] by simp
    then show ?thesis using le by simp
  next
    case False
    then have "ways' = w1"
      using "1.prems" a by (auto simp add: stitchLoop.simps [of ds nodes])
    then show ?thesis using le by simp
  qed
qed

text \<open>The outer \<^verbatim>\<open>for\<close> loop: the iterator always stands on the first way, which is
  erased at the end of each round.\<close>

function outerLoop :: "DataSet \<Rightarrow> Node list \<Rightarrow> Way list \<Rightarrow> Node list" where
  "outerLoop ds nodes [] = nodes"
| "outerLoop ds nodes (w # ws) =
     (case stitchLoop ds (appendNodesFromWay ds nodes (way_nodes w))
             (hd (way_nodes w)) (last (way_nodes w)) (w # ws) of
        (nodes', ways') \<Rightarrow> outerLoop ds nodes' (tl ways'))"
  by pat_completeness auto
termination
  apply (relation "measure (\<lambda>(ds, nodes, ways). length ways)")
   apply simp
  apply (auto dest!: stitchLoop_length [OF sym])
  done

text \<open>Collecting the outer member ways of a relation.\<close>

fun collectOuterWays :: "DataSet \<Rightarrow> Member list \<Rightarrow> Way list" where
  "collectOuterWays ds [] = []"
| "collectOuterWays ds (m # ms) =
     (if member_role m \<noteq> ''outer'' then collectOuterWays ds ms
      else case findWay ds (member_id m) of
        None \<Rightarrow> collectOuterWays ds ms
      | Some w \<Rightarrow> if way_nodes w \<noteq> [] then w # collectOuterWays ds ms
                  else collectOuterWays ds ms)"

fun outerPath :: "DataSet \<Rightarrow> Element \<Rightarrow> Node list" where
  "outerPath ds Null = []"
| "outerPath ds (NodeElement n) = [n]"
| "outerPath ds (WayElement w) = appendNodesFromWay ds [] (way_nodes w)"
| "outerPath ds (RelationElement r) =
     (if tagValue (relation_tags r) ''type'' \<noteq> ''multipolygon'' then []
      else outerLoop ds [] (collectOuterWays ds (relation_members r)))"

section \<open>Scene graph items and the hit detector (map/renderer/hitdetector.cpp)\<close>

text \<open>
  Coordinates, widths and alpha values are \<^verbatim>\<open>double\<close> or \<^verbatim>\<open>float\<close> in the source. The
  code that is modelled here only compares and combines them, so they are real
  numbers in the model (finite values; no NaN).
  \<^verbatim>\<open>QRectF\<close> is a position and a size. The accessors below are Qt's: \<^verbatim>\<open>center\<close>,
  \<^verbatim>\<open>moveCenter\<close>, \<^verbatim>\<open>adjust\<close> and \<^verbatim>\<open>contains\<close>, which counts the edges as inside,
  reads a negative size as a rectangle extending to the left or upwards and is false for
  a rectangle without width or height.
\<close>

type_synonym QPointF = "real \<times> real"

record QRectF =
  rect_x :: real
  rect_y :: real
  rect_width :: real
  rect_height :: real

definition rect_center :: "QRectF \<Rightarrow> QPointF" where
  "rect_center r = (rect_x r + rect_width r / 2, rect_y r + rect_height r / 2)"

definition rect_moveCenter :: "QRectF \<Rightarrow> QPointF \<Rightarrow> QRectF" where
  "rect_moveCenter r p = r\<lparr>rect_x := fst p - rect_width r / 2, rect_y := snd p - rect_height r / 2\<rparr>"

definition rect_adjust :: "QRectF \<Rightarrow> real \<Rightarrow> real \<Rightarrow> real \<Rightarrow> real \<Rightarrow> QRectF" where
  "rect_adjust r dx1 dy1 dx2 dy2 =
     \<lparr>rect_x = rect_x r + dx1, rect_y = rect_y r + dy1,
      rect_width = rect_width r + dx2 - dx1, rect_height = rect_height r + dy2 - dy1\<rparr>"

definition rect_contains :: "QRectF \<Rightarrow> QPointF \<Rightarrow> bool" where
  "rect_contains r p =
     (let l = (if rect_width r < 0 then rect_x r + rect_width r else rect_x r);
          rr = (if rect_width r < 0 then rect_x r else rect_x r + rect_width r);
          t = (if rect_height r < 0 then rect_y r + rect_height r else rect_y r);
          b = (if rect_height r < 0 then rect_y r else rect_y r + rect_height r)
      in if l = rr then False
         else if fst p < l \<or> fst p > rr then False
         else if t = b then False
         else if snd p < t \<or> snd p > b then False
         else True)"

text \<open>
  The payload classes (\<^verbatim>\<open>scene/scenegraphitem.h\<close> is not part of the sources): the
  fields are the ones that the hit detector and the renderer read or write. A colour
  is given by what the code asks of it, \<^verbatim>\<open>alpha()\<close> and \<^verbatim>\<open>alphaF()\<close>, and an
  identifying value; a pen by its colour and width; fonts, icons and painter paths are
  identified by a name, a flag and their polygons.
\<close>

record QColor =
  color_value :: nat
  color_alpha :: nat
  color_alphaF :: real

record QPen =
  pen_color :: QColor
  pen_widthF :: real

datatype Unit = Pixel | Meter

record PolygonItem =
  polygon :: "QPointF list"
  polygon_brush :: QColor
  polygon_pen :: QPen
  polygon_penWidthUnit :: Unit

record MultiPolygonItem =
  multi_path :: "QPointF list list"
  multi_brush :: QColor
  multi_pen :: QPen
  multi_penWidthUnit :: Unit

record PolylineItem =
  polyline_path :: "QPointF list"
  polyline_pen :: QPen
  polyline_casingPen :: QPen
  polyline_penWidthUnit :: Unit
  polyline_casingPenWidthUnit :: Unit

record LabelItem =
  label_pos :: QPointF
  label_angle :: real
  label_offset :: real
  label_text :: string
  label_textWidth :: real
  label_maxWidth :: real
  label_font :: string
  label_color :: QColor
  label_icon_isNull :: bool
  label_iconSize :: "real \<times> real"
  label_casingWidth :: real
  label_casingColor :: QColor
  label_frameWidth :: real
  label_frameColor :: QColor
  label_haloRadius :: real
  label_shieldColor :: QColor
  label_bbox :: QRectF
  label_hasFineBbox :: bool

text \<open>\<^verbatim>\<open>OtherPayload\<close> stands for a payload class that is none of the four: the last branch
  of every \<^verbatim>\<open>dynamic_cast\<close> chain.\<close>

datatype Payload =
    Polygon PolygonItem
  | MultiPolygon MultiPolygonItem
  | Polyline PolylineItem
  | Label LabelItem
  | OtherPayload

record SceneGraphItem =
  item_element :: Element
  item_layer :: int
  item_z :: int
  item_payload :: Payload

text \<open>The render phases: a payload's \<^verbatim>\<open>renderPhases()\<close> is a set of them, \<^verbatim>\<open>NoPhase\<close>
  the empty one.\<close>

datatype RenderPhase = FillPhase | CasingPhase | StrokePhase | LabelPhase

text \<open>
  What the hit detector and the renderer call and the sources do not define is a parameter
  of the model: the virtual methods of the payloads (\<^verbatim>\<open>boundingRect\<close>, \<^verbatim>\<open>renderPhases\<close>,
  \<^verbatim>\<open>inSceneSpace\<close>, \<^verbatim>\<open>inHUDSpace\<close>), \<^verbatim>\<open>SceneGeometry::distanceToLine\<close>, and Qt's
  \<^verbatim>\<open>QPolygonF::containsPoint\<close> (odd-even fill), \<^verbatim>\<open>QPainterPath::contains\<close>,
  \<^verbatim>\<open>QFontMetrics::horizontalAdvance\<close>, \<^verbatim>\<open>QRectF::intersects\<close>, \<^verbatim>\<open>QRectF::united\<close> and
  \<^verbatim>\<open>QPainter::boundingRect\<close>.
\<close>

record scene_ext =
  boundingRect :: "Payload \<Rightarrow> QRectF"
  renderPhases :: "Payload \<Rightarrow> RenderPhase set"
  inSceneSpace :: "Payload \<Rightarrow> bool"
  inHUDSpace :: "Payload \<Rightarrow> bool"
  distanceToLine :: "QPointF \<times> QPointF \<Rightarrow> QPointF \<Rightarrow> real"
  polygonContainsPoint :: "QPointF list \<Rightarrow> QPointF \<Rightarrow> bool"
  pathContains :: "QPointF list list \<Rightarrow> QPointF \<Rightarrow> bool"
  horizontalAdvance :: "string \<Rightarrow> string \<Rightarrow> real"
  rectIntersects :: "QRectF \<Rightarrow> QRectF \<Rightarrow> bool"
  rectUnited :: "QRectF \<Rightarrow> QRectF \<Rightarrow> QRectF"
  painterBoundingRect :: "string \<Rightarrow> QRectF \<Rightarrow> bool \<Rightarrow> string \<Rightarrow> QRectF"

text \<open>The view (\<^verbatim>\<open>renderer/view.h\<close> is not part of the sources): its transformations and
  its geometry are the fields.\<close>

record View =
  mapScreenToScene :: "QPointF \<Rightarrow> QPointF"
  mapSceneToScreen :: "QPointF \<Rightarrow> QPointF"
  mapSceneToScreenRect :: "QRectF \<Rightarrow> QRectF"
  mapMetersToScene :: "real \<Rightarrow> real"
  mapScreenDistanceToSceneDistance :: "real \<Rightarrow> real"
  screenWidth :: real
  screenHeight :: real
  viewport :: QRectF
  sceneBoundingBox :: QRectF

definition DBL_MAX :: real where
  "DBL_MAX = (2 - 1 / 2 ^ 52) * 2 ^ 1023"

text \<open>\<^verbatim>\<open>itemContainsPoint\<close> for a polyline: the least distance of the point to a segment
  of the path, against the sum of the stroke and the casing width.\<close>

fun polylineDistance :: "scene_ext \<Rightarrow> QPointF list \<Rightarrow> QPointF \<Rightarrow> real \<Rightarrow> real" where
  "polylineDistance ext (a # b # ps) scenePos d =
     polylineDistance ext (b # ps) scenePos (min d (distanceToLine ext (a, b) scenePos))"
| "polylineDistance ext ps scenePos d = d"

definition itemContainsPoint_polyline ::
  "scene_ext \<Rightarrow> View \<Rightarrow> PolylineItem \<Rightarrow> QPointF \<Rightarrow> bool" where
  "itemContainsPoint_polyline ext view item scenePos =
     (if length (polyline_path item) < 2 then False
      else let lineWidth = mapMetersToScene view (pen_widthF (polyline_pen item))
                 + mapScreenDistanceToSceneDistance view (pen_widthF (polyline_casingPen item))
           in polylineDistance ext (polyline_path item) scenePos DBL_MAX \<le> lineWidth)"

definition itemContainsPoint_label ::
  "scene_ext \<Rightarrow> View \<Rightarrow> LabelItem \<Rightarrow> QPointF \<Rightarrow> bool" where
  "itemContainsPoint_label ext view item screenPos =
     (let hitBox = boundingRect ext (Label item);
          hitBox1 =
            (if label_textWidth item > 0 then
               let width0 = horizontalAdvance ext (label_font item) (label_text item);
                   width1 = (if \<not> label_icon_isNull item then max width0 (fst (label_iconSize item))
                             else width0);
                   width2 = width1 + max (label_frameWidth item) (label_haloRadius item)
                              + label_casingWidth item;
                   widthDelta = (rect_width hitBox - width2) / 2
               in rect_adjust hitBox widthDelta 0 (- widthDelta) 0
             else hitBox);
          hitBox2 = rect_moveCenter hitBox1 (mapSceneToScreen view (rect_center hitBox1))
      in rect_contains hitBox2 screenPos)"

fun itemContainsPoint :: "scene_ext \<Rightarrow> View \<Rightarrow> SceneGraphItem \<Rightarrow> QPointF \<Rightarrow> bool" where
  "itemContainsPoint ext view item screenPos =
     (case item_payload item of
        Polygon i \<Rightarrow> polygonContainsPoint ext (polygon i) (mapScreenToScene view screenPos)
      | MultiPolygon i \<Rightarrow> pathContains ext (multi_path i) (mapScreenToScene view screenPos)
      | Polyline i \<Rightarrow> itemContainsPoint_polyline ext view i (mapScreenToScene view screenPos)
      | Label i \<Rightarrow> itemContainsPoint_label ext view i screenPos
      | OtherPayload \<Rightarrow> True)"

fun itemFillAlpha :: "SceneGraphItem \<Rightarrow> real" where
  "itemFillAlpha item =
     (case item_payload item of
        Polygon i \<Rightarrow> color_alphaF (polygon_brush i)
      | MultiPolygon i \<Rightarrow> color_alphaF (multi_brush i)
      | _ \<Rightarrow> 1)"

text \<open>\<^verbatim>\<open>itemsAt\<close>: the items of the scene graph, in its order, that have a render phase,
  whose bounding box contains the scene position and whose geometry contains the point.\<close>

fun itemsAt :: "scene_ext \<Rightarrow> View \<Rightarrow> QPointF \<Rightarrow> SceneGraphItem list \<Rightarrow> SceneGraphItem list" where
  "itemsAt ext view pos [] = []"
| "itemsAt ext view pos (item # sg) =
     (if renderPhases ext (item_payload item) = {}
         \<or> \<not> rect_contains (boundingRect ext (item_payload item)) (mapScreenToScene view pos)
      then itemsAt ext view pos sg
      else if \<not> itemContainsPoint ext view item pos then itemsAt ext view pos sg
      else item # itemsAt ext view pos sg)"

text \<open>
  The area that the comparison of \<^verbatim>\<open>itemAt\<close> sorts by. \<^verbatim>\<open>std::sort\<close> leaves the order
  of items of equal area open; \<^verbatim>\<open>sortByArea\<close> is an insertion sort with the source's
  comparison, and the properties proved of \<^verbatim>\<open>itemAt\<close> hold for every order of equal items.
\<close>

definition bboxArea :: "scene_ext \<Rightarrow> SceneGraphItem \<Rightarrow> real" where
  "bboxArea ext item =
     rect_width (boundingRect ext (item_payload item)) * rect_height (boundingRect ext (item_payload item))"

fun insertByArea :: "scene_ext \<Rightarrow> SceneGraphItem \<Rightarrow> SceneGraphItem list \<Rightarrow> SceneGraphItem list" where
  "insertByArea ext x [] = [x]"
| "insertByArea ext x (y # ys) =
     (if bboxArea ext x < bboxArea ext y then x # y # ys else y # insertByArea ext x ys)"

fun sortByArea :: "scene_ext \<Rightarrow> SceneGraphItem list \<Rightarrow> SceneGraphItem list" where
  "sortByArea ext [] = []"
| "sortByArea ext (x # xs) = insertByArea ext x (sortByArea ext xs)"

text \<open>\<^verbatim>\<open>itemAt\<close>; \<^const>\<open>None\<close> is the null pointer.\<close>

definition itemAt :: "scene_ext \<Rightarrow> View \<Rightarrow> QPointF \<Rightarrow> SceneGraphItem list \<Rightarrow> SceneGraphItem option" where
  "itemAt ext view pos sg =
     (let items = itemsAt ext view pos sg in
      if items = [] then None
      else if length items = 1 then Some (hd items)
      else let top = last items in
        if itemFillAlpha top \<ge> 0.5 then Some top
        else Some (hd (sortByArea ext items)))"

section \<open>Navigation mesh builder (routing/navmeshbuilder.cpp)\<close>

text \<open>
  Modelled from the spec: \<^verbatim>\<open>MapLevel\<close> is declared in a header that is not part of the
  sources. "Levels are represented as 10 \<times> human floor", a level is full when
  \<^verbatim>\<open>l mod 10 = 0\<close>, and for a level that is not full \<^verbatim>\<open>fullLevelBelow = 10 * floor(l/10)\<close>
  and \<^verbatim>\<open>fullLevelAbove = 10 * ceil(l/10)\<close>.
\<close>

record MapLevel =
  numericLevel :: int
  levelName :: string

definition MapLevel_of :: "int \<Rightarrow> MapLevel" where
  "MapLevel_of l = \<lparr>numericLevel = l, levelName = []\<rparr>"




text \<open>The level map of the map data: the levels in the order of the map, each with its
  elements.\<close>

type_synonym LevelMap = "(MapLevel \<times> Element list) list"

datatype LinkDirection = Forward | Backward | Bidirectional

text \<open>The area types named in the builder; the enumeration and its underlying values are
  declared in a header that is not part of the sources.\<close>

datatype AreaType = Unwalkable | Walkable | Elevator | Escalator

text \<open>
  Failures of the source that the model returns as values: \<^verbatim>\<open>Unreachable\<close> for
  \<^verbatim>\<open>Q_UNREACHABLE()\<close>, \<^verbatim>\<open>OutOfRange\<close> for a read past the end of a vector
  (\<^verbatim>\<open>std::out_of_range\<close> from \<^verbatim>\<open>at()\<close>, undefined behaviour from \<^verbatim>\<open>operator[]\<close>).
\<close>

datatype error = Unreachable | OutOfRange

text \<open>
  The state of \<^verbatim>\<open>NavMeshBuilderPrivate\<close> that the passes below read and write: the node
  level index, the vertex offset, and the contents of the three output buffers.
\<close>

record NavMeshBuilder =
  m_nodeLevelMap :: "Id \<rightharpoonup> int"
  m_vertexOffset :: int
  m_objVertices :: string
  m_objFaces :: string
  m_gsetData :: string

text \<open>
  Parameters of the model: \<^verbatim>\<open>QByteArray::number\<close> for a floating point and for an
  integer value, \<^verbatim>\<open>qToUnderlying\<close> of an area type, the \<^verbatim>\<open>NavMeshTransform\<close>
  (\<^verbatim>\<open>mapGeoToNav\<close> for a point and for a coordinate, \<^verbatim>\<open>mapHeightToNav\<close>),
  \<^verbatim>\<open>QLineF::length\<close>, the vertices that \<^verbatim>\<open>QTriangulatingStroker\<close> produces for a polygon
  and a pen width (whole vertices, an x and a y each), and \<^verbatim>\<open>QPolygonF::united\<close>.
\<close>

record nav_ext =
  number :: "real \<Rightarrow> string"
  numberI :: "int \<Rightarrow> string"
  underlying :: "AreaType \<Rightarrow> int"
  mapGeoToNav :: "QPointF \<Rightarrow> QPointF"
  mapGeoToNavC :: "Coordinate \<Rightarrow> QPointF"
  mapHeightToNav :: "int \<Rightarrow> real"
  lineLength :: "QPointF \<Rightarrow> QPointF \<Rightarrow> real"
  strokerVertices :: "QPointF list \<Rightarrow> real \<Rightarrow> QPointF list"
  polygonUnited :: "QPointF list \<Rightarrow> QPointF list \<Rightarrow> QPointF list"

definition INT_MIN :: int where
  "INT_MIN = - 2147483648"

subsection \<open>Level index\<close>

definition levelForNode :: "NavMeshBuilder \<Rightarrow> Id \<Rightarrow> int" where
  "levelForNode st nodeId = (case m_nodeLevelMap st nodeId of Some l \<Rightarrow> l | None \<Rightarrow> 0)"

definition addNodeToLevelIndex :: "NavMeshBuilder \<Rightarrow> Id \<Rightarrow> int \<Rightarrow> NavMeshBuilder" where
  "addNodeToLevelIndex st nodeId level =
     (case m_nodeLevelMap st nodeId of
        None \<Rightarrow> st\<lparr>m_nodeLevelMap := (m_nodeLevelMap st)(nodeId \<mapsto> level)\<rparr>
      | Some l \<Rightarrow>
          if l \<noteq> level then st\<lparr>m_nodeLevelMap := (m_nodeLevelMap st)(nodeId \<mapsto> INT_MIN)\<rparr>
          else st)"

text \<open>The body of the loop over the elements of one level: the \<^verbatim>\<open>switch\<close> on the element
  type.\<close>

fun indexElement :: "NavMeshBuilder \<Rightarrow> int \<Rightarrow> Element \<Rightarrow> error + NavMeshBuilder" where
  "indexElement st level Null = Inl Unreachable"
| "indexElement st level (NodeElement n) = Inr st"
| "indexElement st level (WayElement w) =
     (let lvl = tagValue (way_tags w) ''level'' in
      if lvl = [] \<or> CHR '';'' \<in> set lvl then Inr st
      else Inr (fold (\<lambda>nodeId st'. addNodeToLevelIndex st' nodeId level) (way_nodes w) st))"
| "indexElement st level (RelationElement r) = Inr st"

fun indexElements :: "NavMeshBuilder \<Rightarrow> int \<Rightarrow> Element list \<Rightarrow> error + NavMeshBuilder" where
  "indexElements st level [] = Inr st"
| "indexElements st level (e # es) =
     (case indexElement st level e of
        Inl err \<Rightarrow> Inl err
      | Inr st' \<Rightarrow> indexElements st' level es)"

fun indexNodeLevels :: "NavMeshBuilder \<Rightarrow> LevelMap \<Rightarrow> error + NavMeshBuilder" where
  "indexNodeLevels st [] = Inr st"
| "indexNodeLevels st (level # levels) =
     (if numericLevel (fst level) = 0 then indexNodeLevels st levels
      else case indexElements st (numericLevel (fst level)) (snd level) of
        Inl err \<Rightarrow> Inl err
      | Inr st' \<Rightarrow> indexNodeLevels st' levels)"

subsection \<open>Output records\<close>

definition newline :: string where
  "newline = [CHR 0x0A]"

definition addVertex :: "nav_ext \<Rightarrow> NavMeshBuilder \<Rightarrow> real \<Rightarrow> real \<Rightarrow> real \<Rightarrow> NavMeshBuilder" where
  "addVertex ext st x y z =
     st\<lparr>m_objVertices := m_objVertices st @ ''v '' @ number ext x @ '' '' @ number ext y
           @ '' '' @ number ext z @ newline\<rparr>"

definition addFace :: "nav_ext \<Rightarrow> NavMeshBuilder \<Rightarrow> int \<Rightarrow> int \<Rightarrow> int \<Rightarrow> NavMeshBuilder" where
  "addFace ext st i j k =
     st\<lparr>m_objFaces := m_objFaces st @ ''f '' @ numberI ext i @ '' '' @ numberI ext j
           @ '' '' @ numberI ext k @ newline\<rparr>"

text \<open>\<^verbatim>\<open>addOffMeshConnection\<close>: a backward link has its end points swapped and becomes a
  forward link; then the record is written.\<close>

definition addOffMeshConnection ::
  "nav_ext \<Rightarrow> NavMeshBuilder \<Rightarrow> real \<Rightarrow> real \<Rightarrow> real \<Rightarrow> real \<Rightarrow> real \<Rightarrow> real \<Rightarrow>
     LinkDirection \<Rightarrow> AreaType \<Rightarrow> NavMeshBuilder" where
  "addOffMeshConnection ext st x1 y1 z1 x2 y2 z2 linkDir areaType =
     (case (if linkDir = Backward then (x2, y2, z2, x1, y1, z1, Forward)
            else (x1, y1, z1, x2, y2, z2, linkDir)) of
        (a1, b1, c1, a2, b2, c2, dir) \<Rightarrow>
          st\<lparr>m_gsetData := m_gsetData st @ ''c '' @ number ext a1 @ '' '' @ number ext b1
                @ '' '' @ number ext c1 @ ''  '' @ number ext a2 @ '' '' @ number ext b2
                @ '' '' @ number ext c2 @ '' 0.6 ''
                @ (if dir = Bidirectional then ''1'' else ''0'')
                @ '' '' @ numberI ext (underlying ext areaType) @ '' 8'' @ newline\<rparr>)"

text \<open>The text of one off-mesh connection record, by its fields.\<close>

definition connectionRecord ::
  "nav_ext \<Rightarrow> real \<Rightarrow> real \<Rightarrow> real \<Rightarrow> real \<Rightarrow> real \<Rightarrow> real \<Rightarrow> string \<Rightarrow> AreaType \<Rightarrow> string" where
  "connectionRecord ext x1 y1 z1 x2 y2 z2 flag areaType =
     ''c '' @ number ext x1 @ '' '' @ number ext y1 @ '' '' @ number ext z1
       @ ''  '' @ number ext x2 @ '' '' @ number ext y2 @ '' '' @ number ext z2
       @ '' 0.6 '' @ flag @ '' '' @ numberI ext (underlying ext areaType) @ '' 8'' @ newline"

subsection \<open>Polygons of an element\<close>






subsection \<open>Geometry passes of \<^verbatim>\<open>processGeometry\<close>\<close>

text \<open>The part of a MapCSS result layer that the passes read: the three property
  classes, the pen width that \<^verbatim>\<open>PenWidthUtil::penWidth\<close> gives for the \<^verbatim>\<open>width\<close>
  declaration and the value of the \<^verbatim>\<open>extrude\<close> declaration (\<^const>\<open>None\<close> when the layer
  has no such declaration).\<close>

record MapCSSResultLayer =
  hasAreaProperties :: bool
  hasLineProperties :: bool
  hasExtrudeProperties :: bool
  widthPenWidth :: "real option"
  extrudeValue :: "real option"

definition isDoor :: "Node \<Rightarrow> bool" where
  "isDoor node = (tagValue (node_tags node) ''door'' \<noteq> [])"






text \<open>
  The extrude pass. The loop bound \<^verbatim>\<open>way.size() - 1\<close> is computed in \<^verbatim>\<open>std::size_t\<close>:
  for an empty path it wraps around to \<open>2\<^sup>6\<^sup>4 - 1\<close>. \<^verbatim>\<open>way[i]\<close> is read before
  \<^verbatim>\<open>way[i + 1]\<close>, which is not read when the first node is a door.
\<close>

definition extrudeBound :: "Node list \<Rightarrow> nat" where
  "extrudeBound way = (if way = [] then 2 ^ 64 - 1 else length way - 1)"

definition extrudeSegment :: "nav_ext \<Rightarrow> NavMeshBuilder \<Rightarrow> int \<Rightarrow> Node \<Rightarrow> Node \<Rightarrow> NavMeshBuilder" where
  "extrudeSegment ext st floorLevel a b =
     (let p1 = mapGeoToNavC ext (node_coordinate a);
          p2 = mapGeoToNavC ext (node_coordinate b);
          st1 = addVertex ext st (fst p1) (mapHeightToNav ext floorLevel) (snd p1);
          st2 = addVertex ext st1 (fst p2) (mapHeightToNav ext floorLevel) (snd p2);
          st3 = addVertex ext st2 (fst p1) (mapHeightToNav ext (floorLevel + 10)) (snd p1);
          st4 = addVertex ext st3 (fst p2) (mapHeightToNav ext (floorLevel + 10)) (snd p2);
          st5 = addFace ext st4 (m_vertexOffset st4) (m_vertexOffset st4 + 1) (m_vertexOffset st4 + 2);
          st6 = addFace ext st5 (m_vertexOffset st5 + 1) (m_vertexOffset st5 + 3) (m_vertexOffset st5 + 2)
      in st6\<lparr>m_vertexOffset := m_vertexOffset st6 + 4\<rparr>)"

function extrudeLoop ::
  "nav_ext \<Rightarrow> int \<Rightarrow> Node list \<Rightarrow> nat \<Rightarrow> NavMeshBuilder \<Rightarrow> error + NavMeshBuilder" where
  "extrudeLoop ext floorLevel way i st =
     (if i < extrudeBound way then
        (if \<not> i < length way then Inl OutOfRange
         else if isDoor (way ! i) then extrudeLoop ext floorLevel way (Suc i) st
         else if \<not> Suc i < length way then Inl OutOfRange
         else if isDoor (way ! Suc i) then extrudeLoop ext floorLevel way (Suc i) st
         else extrudeLoop ext floorLevel way (Suc i)
                (extrudeSegment ext st floorLevel (way ! i) (way ! Suc i)))
      else Inr st)"
  by pat_completeness auto
termination
  by (relation "measure (\<lambda>(ext, floorLevel, way, i, st). length way - i)") auto

declare extrudeLoop.simps [simp del]

definition processGeometry_extrude ::
  "nav_ext \<Rightarrow> DataSet \<Rightarrow> NavMeshBuilder \<Rightarrow> Element \<Rightarrow> int \<Rightarrow> MapCSSResultLayer \<Rightarrow>
     error + NavMeshBuilder" where
  "processGeometry_extrude ext ds st elem floorLevel res =
     (if hasExtrudeProperties res then
        (case extrudeValue res of
           Some v \<Rightarrow>
             if v > 0 then extrudeLoop ext floorLevel (outerPath ds elem) 0 st else Inr st
         | None \<Rightarrow> Inr st)
      else Inr st)"

subsection \<open>Example data\<close>

definition ex_helpers :: osm_helpers where
  "ex_helpers = \<lparr>bboxCenter = bbox_min, nodeUrl = (\<lambda>n. ''node''), wayUrl = (\<lambda>w. ''way''),
     relationUrl = (\<lambda>r. ''relation'')\<rparr>"

definition ex_node :: "Id \<Rightarrow> Node" where
  "ex_node i = \<lparr>node_id = i, node_coordinate = \<lparr>latitude = i, longitude = 2 * i\<rparr>, node_tags = []\<rparr>"

definition ex_way :: "Id \<Rightarrow> Id list \<Rightarrow> Way" where
  "ex_way i ns = \<lparr>way_id = i, way_bbox = BoundingBox_default, way_nodes = ns, way_tags = []\<rparr>"

definition ex_outer :: "Id \<Rightarrow> Member" where
  "ex_outer i = \<lparr>member_id = i, member_role = ''outer'', member_type = TWay\<rparr>"

definition ex_relation :: "string \<Rightarrow> Id list \<Rightarrow> Relation" where
  "ex_relation ty ms = \<lparr>relation_id = 1, relation_bbox = BoundingBox_default,
     relation_members = map ex_outer ms,
     relation_tags = [\<lparr>tag_key = ''type'', tag_value = ty\<rparr>]\<rparr>"

text \<open>Two triangles, way 10 over the nodes 1, 2, 3 and way 20 over the nodes 4, 5, 6.\<close>

definition ex_rings :: DataSet where
  "ex_rings = \<lparr>ds_nodes = map ex_node [1, 2, 3, 4, 5, 6],
     ds_ways = [ex_way 10 [1, 2, 3, 1], ex_way 20 [4, 5, 6, 4]],
     ds_relations = []\<rparr>"

definition ex_rectOf :: "QPointF list \<Rightarrow> QRectF" where
  "ex_rectOf ps = (case ps of
      a # b # c # _ \<Rightarrow> \<lparr>rect_x = fst a, rect_y = snd a, rect_width = fst c - fst a, rect_height = snd c - snd a\<rparr>
    | _ \<Rightarrow> \<lparr>rect_x = 0, rect_y = 0, rect_width = 0, rect_height = 0\<rparr>)"

definition ex_ext :: scene_ext where
  "ex_ext = \<lparr>
     boundingRect = (\<lambda>p. case p of Polygon i \<Rightarrow> ex_rectOf (polygon i)
                        | Label i \<Rightarrow> label_bbox i
                        | _ \<Rightarrow> \<lparr>rect_x = 0, rect_y = 0, rect_width = 0, rect_height = 0\<rparr>),
     renderPhases = (\<lambda>p. case p of Polygon i \<Rightarrow> {FillPhase} | Label i \<Rightarrow> {LabelPhase} | _ \<Rightarrow> {}),
     inSceneSpace = (\<lambda>p. case p of Label i \<Rightarrow> False | _ \<Rightarrow> True),
     inHUDSpace = (\<lambda>p. case p of Label i \<Rightarrow> True | _ \<Rightarrow> False),
     distanceToLine = (\<lambda>l p. 0),
     polygonContainsPoint = (\<lambda>ps p. rect_contains (ex_rectOf ps) p),
     pathContains = (\<lambda>pss p. False),
     horizontalAdvance = (\<lambda>f t. real (length t)),
     rectIntersects = (\<lambda>a b. True),
     rectUnited = (\<lambda>a b. a),
     painterBoundingRect = (\<lambda>f r w t. \<lparr>rect_x = 0, rect_y = 0, rect_width = real (length t), rect_height = 1\<rparr>)\<rparr>"

definition ex_view :: View where
  "ex_view = \<lparr>mapScreenToScene = (\<lambda>p. p), mapSceneToScreen = (\<lambda>p. p),
     mapSceneToScreenRect = (\<lambda>r. r), mapMetersToScene = (\<lambda>x. x),
     mapScreenDistanceToSceneDistance = (\<lambda>x. x),
     screenWidth = 100, screenHeight = 100,
     viewport = \<lparr>rect_x = 0, rect_y = 0, rect_width = 100, rect_height = 100\<rparr>,
     sceneBoundingBox = \<lparr>rect_x = 0, rect_y = 0, rect_width = 100, rect_height = 100\<rparr>\<rparr>"

definition ex_color :: "real \<Rightarrow> QColor" where
  "ex_color a = \<lparr>color_value = 0, color_alpha = nat \<lfloor>a * 255\<rfloor>, color_alphaF = a\<rparr>"

text \<open>A square polygon item with corners (0,0) and (w,w), of fill alpha a, for way i.\<close>

definition ex_square :: "Id \<Rightarrow> real \<Rightarrow> real \<Rightarrow> SceneGraphItem" where
  "ex_square i w a = \<lparr>item_element = WayElement (ex_way i []), item_layer = 0, item_z = 0,
     item_payload = Polygon \<lparr>polygon = [(0, 0), (w, 0), (w, w), (0, w)],
       polygon_brush = ex_color a,
       polygon_pen = \<lparr>pen_color = ex_color 1, pen_widthF = 1\<rparr>,
       polygon_penWidthUnit = Pixel\<rparr>\<rparr>"

text \<open>The reading of the hit detector's rule in which the preferred candidate is the
  topmost one among the candidates of fill alpha at least 0.5.\<close>

definition topmostOpaque :: "SceneGraphItem list \<Rightarrow> SceneGraphItem option" where
  "topmostOpaque items =
     (case filter (\<lambda>i. 0.5 \<le> itemFillAlpha i) items of [] \<Rightarrow> None | xs \<Rightarrow> Some (last xs))"

subsection \<open>Specification side definitions and example data for the navigation mesh builder\<close>

text \<open>The nodes that the level index registers for an element, and the levels (in the
  order of the pass) at which a node is registered.\<close>

fun indexedNodes :: "Element \<Rightarrow> Id list" where
  "indexedNodes (WayElement w) =
     (let lvl = tagValue (way_tags w) ''level'' in
      if lvl = [] \<or> CHR '';'' \<in> set lvl then [] else way_nodes w)"
| "indexedNodes e = []"

definition seenLevels :: "LevelMap \<Rightarrow> Id \<Rightarrow> int list" where
  "seenLevels levelMap n =
     concat (map (\<lambda>level.
        if numericLevel (fst level) = 0 then []
        else concat (map (\<lambda>e. map (\<lambda>x. numericLevel (fst level)) (filter (\<lambda>i. i = n) (indexedNodes e)))
               (snd level))) levelMap)"

text \<open>What the index holds for a node after a sequence of levels has been registered.\<close>

definition merged :: "int option \<Rightarrow> int list \<Rightarrow> int option" where
  "merged v ls =
     (case v of
        None \<Rightarrow> (case ls of [] \<Rightarrow> None
                  | l # ls' \<Rightarrow> if list_all (\<lambda>x. x = l) ls' then Some l else Some INT_MIN)
      | Some l0 \<Rightarrow> if list_all (\<lambda>x. x = l0) ls then Some l0 else Some INT_MIN)"

text \<open>No entry of the level map with a level other than zero holds a null element (the
  pass declares that case unreachable).\<close>

definition noNullElements :: "LevelMap \<Rightarrow> bool" where
  "noNullElements levelMap =
     list_all (\<lambda>level. numericLevel (fst level) = 0 \<or> list_all (\<lambda>e. e \<noteq> Null) (snd level)) levelMap"

text \<open>The levels at which the level map shows a node: the levels, other than zero, of the
  entries with a way that has a \<^verbatim>\<open>level\<close> tag without a semicolon and refers to the
  node.\<close>

definition levelsSeen :: "LevelMap \<Rightarrow> Id \<Rightarrow> int set" where
  "levelsSeen levelMap n =
     {l. \<exists>level w. level \<in> set levelMap \<and> numericLevel (fst level) = l \<and> l \<noteq> 0 \<and>
        WayElement w \<in> set (snd level) \<and> tagValue (way_tags w) ''level'' \<noteq> [] \<and>
        CHR '';'' \<notin> set (tagValue (way_tags w) ''level'') \<and> n \<in> set (way_nodes w)}"

definition ex_levelWay :: "Id \<Rightarrow> string \<Rightarrow> Id list \<Rightarrow> Element" where
  "ex_levelWay i lvl ns = WayElement \<lparr>way_id = i, way_bbox = BoundingBox_default, way_nodes = ns,
     way_tags = [\<lparr>tag_key = ''level'', tag_value = lvl\<rparr>]\<rparr>"

definition ex_levelMap :: LevelMap where
  "ex_levelMap =
     [(MapLevel_of 0, [ex_levelWay 100 ''0'' [4]]),
      (MapLevel_of 10, [ex_levelWay 101 ''1'' [1, 2], ex_levelWay 102 ''1;2'' [5], NodeElement (ex_node 1)]),
      (MapLevel_of 20, [ex_levelWay 103 ''2'' [2, 3], ex_levelWay 102 ''1;2'' [5]])]"

definition ex_builder :: NavMeshBuilder where
  "ex_builder = \<lparr>m_nodeLevelMap = Map.empty, m_vertexOffset = 1, m_objVertices = [],
     m_objFaces = [], m_gsetData = []\<rparr>"

subsection \<open>Specification side definitions and example data for the geometry passes\<close>

text \<open>The consecutive pairs of a path, and what the extrude pass does for one of them: a
  segment at a door leaves the state as it is, any other segment adds a wall.\<close>

definition segments :: "'a list \<Rightarrow> ('a \<times> 'a) list" where
  "segments xs = zip xs (tl xs)"

definition wallStep :: "nav_ext \<Rightarrow> int \<Rightarrow> Node \<times> Node \<Rightarrow> NavMeshBuilder \<Rightarrow> NavMeshBuilder" where
  "wallStep ext floorLevel seg st =
     (if isDoor (fst seg) \<or> isDoor (snd seg) then st
      else extrudeSegment ext st floorLevel (fst seg) (snd seg))"

text \<open>The text of a vertex and of a face record.\<close>

definition vertexRecord :: "nav_ext \<Rightarrow> real \<Rightarrow> real \<Rightarrow> real \<Rightarrow> string" where
  "vertexRecord ext x y z =
     ''v '' @ number ext x @ '' '' @ number ext y @ '' '' @ number ext z @ newline"

definition faceRecord :: "nav_ext \<Rightarrow> int \<Rightarrow> int \<Rightarrow> int \<Rightarrow> string" where
  "faceRecord ext i j k =
     ''f '' @ numberI ext i @ '' '' @ numberI ext j @ '' '' @ numberI ext k @ newline"

definition ex_digit :: "int \<Rightarrow> string" where
  "ex_digit i = (if 0 \<le> i \<and> i < 10 then [''0123456789'' ! nat i] else ''n'')"

definition ex_nav :: nav_ext where
  "ex_nav = \<lparr>number = (\<lambda>x. if x = 0 then ''0'' else if x = 1 then ''1'' else ''x''),
     numberI = ex_digit,
     underlying = (\<lambda>a. case a of Unwalkable \<Rightarrow> 0 | Walkable \<Rightarrow> 1 | Elevator \<Rightarrow> 2 | Escalator \<Rightarrow> 3),
     mapGeoToNav = (\<lambda>p. p),
     mapGeoToNavC = (\<lambda>c. (real_of_int (longitude c), real_of_int (latitude c))),
     mapHeightToNav = (\<lambda>l. real_of_int l / 10),
     lineLength = (\<lambda>p q. \<bar>fst p - fst q\<bar> + \<bar>snd p - snd q\<bar>),
     strokerVertices = (\<lambda>poly w. concat (map (\<lambda>p. [(fst p, snd p - w), (fst p, snd p + w)]) poly)),
     polygonUnited = (\<lambda>a b. a @ b)\<rparr>"

definition ex_extrude :: MapCSSResultLayer where
  "ex_extrude = \<lparr>hasAreaProperties = False, hasLineProperties = False,
     hasExtrudeProperties = True, widthPenWidth = None, extrudeValue = Some 1\<rparr>"

text \<open>Five nodes in a row, the third one a door.\<close>

definition ex_doors :: DataSet where
  "ex_doors = \<lparr>ds_nodes = [ex_node 1, ex_node 2,
       (ex_node 3)\<lparr>node_tags := [\<lparr>tag_key = ''door'', tag_value = ''yes''\<rparr>]\<rparr>, ex_node 4, ex_node 5],
     ds_ways = [ex_way 40 [1, 2, 3, 4, 5]], ds_relations = []\<rparr>"










subsection \<open>Specification side definitions and example data for the outer path\<close>














section \<open>Floor level change model (map-quick/floorlevelchangemodel.cpp)\<close>
































section \<open>Painter renderer (map/renderer/painterrenderer.cpp)\<close>

text \<open>
  The scene graph (\<^verbatim>\<open>scene/scenegraph.h\<close> is not part of the sources): its items, the
  index ranges of its layers, each a half-open range of positions in the item vector, and
  its background colour.
\<close>

record SceneGraph =
  sg_items :: "SceneGraphItem list"
  sg_layerOffsets :: "(nat \<times> nat) list"
  sg_backgroundColor :: QColor

text \<open>
  The painter is the sequence of the calls made on it. The text flags of a label are the
  word wrap flag (\<^verbatim>\<open>Qt::TextWordWrap\<close> instead of \<^verbatim>\<open>Qt::TextSingleLine\<close>); the bounding
  rectangle that the painter computes for a text depends on the font set before, the
  rectangle, the flags and the text. A gradient fill is given by its rectangle, the start
  and the final stop of the gradient and the colour.
\<close>

datatype PainterCall =
    Save
  | Restore
  | FillRect QRectF QColor
  | FillRectGradient QRectF QPointF QPointF QColor
  | SetPen QPen
  | SetPenColor QColor
  | SetNoPen
  | SetBrush QColor
  | SetNoBrush
  | SetSceneToScreenTransform
  | ResetTransform
  | SetClipRect QRectF
  | SetAntialiasing bool
  | DrawPolygon "QPointF list"
  | DrawPath "QPointF list list"
  | DrawPolyline "QPointF list"
  | Translate QPointF
  | Rotate real
  | SetFont string
  | DrawText QRectF bool string
  | PaintIcon QRectF

type_synonym Painter = "PainterCall list"

text \<open>Further operations of \<^verbatim>\<open>QRectF\<close>, as Qt defines them.\<close>

definition rect_null :: QRectF where
  "rect_null = \<lparr>rect_x = 0, rect_y = 0, rect_width = 0, rect_height = 0\<rparr>"

definition rect_setBottom :: "QRectF \<Rightarrow> real \<Rightarrow> QRectF" where
  "rect_setBottom r y = r\<lparr>rect_height := y - rect_y r\<rparr>"

definition rect_setTop :: "QRectF \<Rightarrow> real \<Rightarrow> QRectF" where
  "rect_setTop r y = r\<lparr>rect_y := y, rect_height := rect_height r - (y - rect_y r)\<rparr>"

definition rect_setRight :: "QRectF \<Rightarrow> real \<Rightarrow> QRectF" where
  "rect_setRight r x = r\<lparr>rect_width := x - rect_x r\<rparr>"

definition rect_setLeft :: "QRectF \<Rightarrow> real \<Rightarrow> QRectF" where
  "rect_setLeft r x = r\<lparr>rect_x := x, rect_width := rect_width r - (x - rect_x r)\<rparr>"

definition rect_topLeft :: "QRectF \<Rightarrow> QPointF" where
  "rect_topLeft r = (rect_x r, rect_y r)"

definition rect_topRight :: "QRectF \<Rightarrow> QPointF" where
  "rect_topRight r = (rect_x r + rect_width r, rect_y r)"

definition rect_bottomLeft :: "QRectF \<Rightarrow> QPointF" where
  "rect_bottomLeft r = (rect_x r, rect_y r + rect_height r)"

text \<open>\<^verbatim>\<open>QRectF::intersected\<close> and \<^verbatim>\<open>QRectF::toRect\<close> are parameters of the renderer
  model, next to the ones of the scene.\<close>

record render_ext =
  rectIntersected :: "QRectF \<Rightarrow> QRectF \<Rightarrow> QRectF"
  rectToRect :: "QRectF \<Rightarrow> QRectF"

definition mapToSceneWidth :: "View \<Rightarrow> real \<Rightarrow> Unit \<Rightarrow> real" where
  "mapToSceneWidth view width unit =
     (case unit of
        Pixel \<Rightarrow> mapScreenDistanceToSceneDistance view width
      | Meter \<Rightarrow> mapMetersToScene view width)"

definition beginRender :: "Painter \<Rightarrow> Painter" where
  "beginRender painter = painter @ [Save]"

definition renderBackground :: "View \<Rightarrow> QColor \<Rightarrow> Painter \<Rightarrow> Painter" where
  "renderBackground view bgColor painter =
     painter @ [FillRect \<lparr>rect_x = 0, rect_y = 0, rect_width = screenWidth view,
                          rect_height = screenHeight view\<rparr> bgColor]"

definition beginPhase :: "render_ext \<Rightarrow> View \<Rightarrow> RenderPhase \<Rightarrow> Painter \<Rightarrow> Painter" where
  "beginPhase rext view phase painter =
     (case phase of
        FillPhase \<Rightarrow>
          painter @ [SetNoPen, SetSceneToScreenTransform,
            SetClipRect (rectIntersected rext (viewport view) (sceneBoundingBox view)),
            SetAntialiasing False]
      | LabelPhase \<Rightarrow> painter @ [ResetTransform, SetAntialiasing True]
      | _ \<Rightarrow>
          painter @ [SetNoBrush, SetSceneToScreenTransform,
            SetClipRect (rectIntersected rext (viewport view) (sceneBoundingBox view)),
            SetAntialiasing True])"

definition renderPolygon :: "View \<Rightarrow> PolygonItem \<Rightarrow> RenderPhase \<Rightarrow> Painter \<Rightarrow> Painter" where
  "renderPolygon view item phase painter =
     (if phase = FillPhase then painter @ [SetBrush (polygon_brush item), DrawPolygon (polygon item)]
      else painter @ [SetPen ((polygon_pen item)\<lparr>pen_widthF :=
               mapToSceneWidth view (pen_widthF (polygon_pen item)) (polygon_penWidthUnit item)\<rparr>),
             DrawPolygon (polygon item)])"

definition renderMultiPolygon :: "View \<Rightarrow> MultiPolygonItem \<Rightarrow> RenderPhase \<Rightarrow> Painter \<Rightarrow> Painter" where
  "renderMultiPolygon view item phase painter =
     (if phase = FillPhase then painter @ [SetBrush (multi_brush item), DrawPath (multi_path item)]
      else painter @ [SetPen ((multi_pen item)\<lparr>pen_widthF :=
               mapToSceneWidth view (pen_widthF (multi_pen item)) (multi_penWidthUnit item)\<rparr>),
             DrawPath (multi_path item)])"

definition renderPolyline :: "View \<Rightarrow> PolylineItem \<Rightarrow> RenderPhase \<Rightarrow> Painter \<Rightarrow> Painter" where
  "renderPolyline view item phase painter =
     (if phase = StrokePhase then
        painter @ [SetPen ((polyline_pen item)\<lparr>pen_widthF :=
               mapToSceneWidth view (pen_widthF (polyline_pen item)) (polyline_penWidthUnit item)\<rparr>),
             DrawPolyline (polyline_path item)]
      else
        painter @ [SetPen ((polyline_casingPen item)\<lparr>pen_widthF :=
               mapToSceneWidth view (pen_widthF (polyline_pen item)) (polyline_penWidthUnit item)
               + mapToSceneWidth view (pen_widthF (polyline_casingPen item))
                   (polyline_casingPenWidthUnit item)\<rparr>),
             DrawPolyline (polyline_path item)])"

text \<open>
  \<^verbatim>\<open>renderLabel\<close>. \<^verbatim>\<open>labelFineBbox\<close> is the block that runs when the label has no fine
  bounding box yet; it returns the item with the box and the flag set, and the painter
  with the font set when the label has a text.
\<close>

definition labelFineBbox :: "scene_ext \<Rightarrow> LabelItem \<Rightarrow> Painter \<Rightarrow> LabelItem \<times> Painter" where
  "labelFineBbox ext item painter =
     (let wrap = (label_maxWidth item > 0);
          painter1 = (if label_text item \<noteq> [] then painter @ [SetFont (label_font item)] else painter);
          bbox1 = (if label_text item \<noteq> [] then
                     painterBoundingRect ext (label_font item)
                       \<lparr>rect_x = 0, rect_y = 0, rect_width = label_maxWidth item, rect_height = 0\<rparr>
                       wrap (label_text item)
                   else rect_null);
          bbox2 = (if \<not> label_icon_isNull item then
                     rectUnited ext bbox1
                       \<lparr>rect_x = 0, rect_y = 0, rect_width = fst (label_iconSize item),
                        rect_height = snd (label_iconSize item)\<rparr>
                   else bbox1);
          bbox3 = rect_moveCenter bbox2 (label_pos item)
      in (item\<lparr>label_bbox := bbox3, label_hasFineBbox := True\<rparr>, painter1))"

definition renderLabel ::
  "scene_ext \<Rightarrow> render_ext \<Rightarrow> View \<Rightarrow> LabelItem \<Rightarrow> Painter \<Rightarrow> LabelItem \<times> Painter" where
  "renderLabel ext rext view item0 painter0 =
     (let painter1 = painter0 @ [Save, Translate (mapSceneToScreen view (label_pos item0)),
                                 Rotate (label_angle item0)];
          wrap = (label_maxWidth item0 > 0);
          (item, painter2) = (if \<not> label_hasFineBbox item0 then labelFineBbox ext item0 painter1
                              else (item0, painter1));
          box = rect_moveCenter (label_bbox item) (0, label_offset item);
          w1 = label_casingWidth item + label_frameWidth item + 2;
          painter3 = (if label_casingWidth item > 0 \<and> color_alpha (label_casingColor item) > 0
                      then painter2 @ [FillRect (rect_adjust box (- w1) (- w1) w1 w1) (label_casingColor item)]
                      else painter2);
          w2 = w1 - label_casingWidth item;
          painter4 = (if label_frameWidth item > 0 \<and> color_alpha (label_frameColor item) > 0
                      then painter3 @ [FillRect (rect_adjust box (- w2) (- w2) w2 w2) (label_frameColor item)]
                      else painter3);
          w3 = w2 - label_frameWidth item;
          painter5 = (if color_alpha (label_shieldColor item) > 0
                      then painter4 @ [FillRect (rect_adjust box (- w3) (- w3) w3 w3) (label_shieldColor item)]
                      else painter4);
          painter6 = (if \<not> label_icon_isNull item then
                        painter5 @ [PaintIcon (rectToRect rext
                          (rect_moveCenter \<lparr>rect_x = 0, rect_y = 0, rect_width = fst (label_iconSize item),
                             rect_height = snd (label_iconSize item)\<rparr> (0, 0)))]
                      else painter5);
          painter7 = (if label_text item \<noteq> [] then
                        painter6 @ [SetPenColor (label_color item), SetFont (label_font item),
                                    DrawText box wrap (label_text item)]
                      else painter6)
      in (item, painter7 @ [Restore]))"

definition renderForeground :: "View \<Rightarrow> QColor \<Rightarrow> Painter \<Rightarrow> Painter" where
  "renderForeground view bgColor painter =
     (let r = mapSceneToScreenRect view (sceneBoundingBox view);
          r1 = rect_setBottom r (rect_y r + 10);
          r2 = rect_setTop r (rect_y r + rect_height r - 10);
          r3 = rect_setRight r (rect_x r + 10);
          r4 = rect_setLeft r (rect_x r + rect_width r - 10)
      in painter @ [SetClipRect (mapSceneToScreenRect view (viewport view)),
           FillRectGradient r1 (rect_topLeft r1) (rect_bottomLeft r1) bgColor,
           FillRectGradient r2 (rect_bottomLeft r2) (rect_topLeft r2) bgColor,
           FillRectGradient r3 (rect_topLeft r3) (rect_topRight r3) bgColor,
           FillRectGradient r4 (rect_topRight r4) (rect_topLeft r4) bgColor])"

definition endRender :: "Painter \<Rightarrow> Painter" where
  "endRender painter = painter @ [Restore]"

text \<open>
  The render batch of a layer holds pointers to payloads of the scene graph; in the model
  it holds the positions of their items. An item in scene space and in HUD space can
  enter the batch twice.
\<close>

definition batchEntries :: "scene_ext \<Rightarrow> View \<Rightarrow> SceneGraphItem list \<Rightarrow> nat \<Rightarrow> nat list" where
  "batchEntries ext view items i =
     (let p = item_payload (items ! i) in
      (if inSceneSpace ext p \<and> rectIntersects ext (viewport view) (boundingRect ext p) then [i] else [])
      @ (if inHUDSpace ext p then
           (let bbox = rect_moveCenter (boundingRect ext p)
                         (mapSceneToScreen view (rect_center (boundingRect ext p)))
            in if rectIntersects ext
                    \<lparr>rect_x = 0, rect_y = 0, rect_width = screenWidth view, rect_height = screenHeight view\<rparr>
                    bbox
               then [i] else [])
         else []))"

definition renderBatchItem ::
  "scene_ext \<Rightarrow> render_ext \<Rightarrow> View \<Rightarrow> RenderPhase \<Rightarrow> nat \<Rightarrow>
     SceneGraphItem list \<times> Painter \<Rightarrow> SceneGraphItem list \<times> Painter" where
  "renderBatchItem ext rext view phase idx s =
     (let items = fst s; painter = snd s; item = items ! idx in
      if phase \<notin> renderPhases ext (item_payload item) then s
      else case item_payload item of
        Polygon i \<Rightarrow> (items, renderPolygon view i phase painter)
      | MultiPolygon i \<Rightarrow> (items, renderMultiPolygon view i phase painter)
      | Polyline i \<Rightarrow> (items, renderPolyline view i phase painter)
      | Label i \<Rightarrow>
          (case renderLabel ext rext view i painter of
             (i', painter') \<Rightarrow> (items[idx := item\<lparr>item_payload := Label i'\<rparr>], painter'))
      | OtherPayload \<Rightarrow> s)"

definition renderPhase ::
  "scene_ext \<Rightarrow> render_ext \<Rightarrow> View \<Rightarrow> nat list \<Rightarrow> RenderPhase \<Rightarrow>
     SceneGraphItem list \<times> Painter \<Rightarrow> SceneGraphItem list \<times> Painter" where
  "renderPhase ext rext view batch phase s =
     fold (renderBatchItem ext rext view phase) batch (fst s, beginPhase rext view phase (snd s))"

text \<open>One layer. The range of the layer has to lie in the item vector; the source reads
  past the end of the vector otherwise.\<close>

definition renderLayer ::
  "scene_ext \<Rightarrow> render_ext \<Rightarrow> View \<Rightarrow> nat \<times> nat \<Rightarrow>
     SceneGraphItem list \<times> Painter \<Rightarrow> error + SceneGraphItem list \<times> Painter" where
  "renderLayer ext rext view layerOffsets s =
     (if \<not> (fst layerOffsets \<le> snd layerOffsets \<and> snd layerOffsets \<le> length (fst s))
      then Inl OutOfRange
      else let batch = concat (map (batchEntries ext view (fst s))
                                 [fst layerOffsets ..< snd layerOffsets])
           in Inr (fold (renderPhase ext rext view batch)
                     [FillPhase, CasingPhase, StrokePhase, LabelPhase] s))"

fun renderLayers ::
  "scene_ext \<Rightarrow> render_ext \<Rightarrow> View \<Rightarrow> (nat \<times> nat) list \<Rightarrow>
     SceneGraphItem list \<times> Painter \<Rightarrow> error + SceneGraphItem list \<times> Painter" where
  "renderLayers ext rext view [] s = Inr s"
| "renderLayers ext rext view (l # ls) s =
     (case renderLayer ext rext view l s of
        Inl err \<Rightarrow> Inl err
      | Inr s' \<Rightarrow> renderLayers ext rext view ls s')"

text \<open>\<^verbatim>\<open>PainterRenderer::render\<close>: the result is the item vector of the scene graph and the
  painter after the frame.\<close>

definition render ::
  "scene_ext \<Rightarrow> render_ext \<Rightarrow> View \<Rightarrow> SceneGraph \<Rightarrow> Painter \<Rightarrow>
     error + SceneGraphItem list \<times> Painter" where
  "render ext rext view sg painter =
     (case renderLayers ext rext view (sg_layerOffsets sg)
             (sg_items sg, renderBackground view (sg_backgroundColor sg) (beginRender painter)) of
        Inl err \<Rightarrow> Inl err
      | Inr s \<Rightarrow> Inr (fst s, endRender (renderForeground view (sg_backgroundColor sg) (snd s))))"

text \<open>
  The frame of a render pass, as the claim describes it. A label's cache is written when
  the label had no fine bounding box before and has one afterwards, and nothing but the
  bounding box and the flag differs. A scene graph item is unchanged except for the label
  cache when it is the same item, or it is a label whose cache was written.
\<close>

definition labelCacheWritten :: "LabelItem \<Rightarrow> LabelItem \<Rightarrow> bool" where
  "labelCacheWritten a b =
     (\<not> label_hasFineBbox a \<and> label_hasFineBbox b \<and>
      b = a\<lparr>label_bbox := label_bbox b, label_hasFineBbox := True\<rparr>)"

definition unchangedExceptLabelCache :: "SceneGraphItem \<Rightarrow> SceneGraphItem \<Rightarrow> bool" where
  "unchangedExceptLabelCache a b =
     (b = a \<or>
      (case item_payload a of
         Label la \<Rightarrow>
           (case item_payload b of
              Label lb \<Rightarrow> b = a\<lparr>item_payload := Label lb\<rparr> \<and> labelCacheWritten la lb
            | _ \<Rightarrow> False)
       | _ \<Rightarrow> False))"

definition validLayerOffsets :: "SceneGraph \<Rightarrow> bool" where
  "validLayerOffsets sg =
     list_all (\<lambda>l. fst l \<le> snd l \<and> snd l \<le> length (sg_items sg)) (sg_layerOffsets sg)"

text \<open>Example data: a scene graph of a square and a label that has not been drawn yet,
  in one layer.\<close>

definition ex_rext :: render_ext where
  "ex_rext = \<lparr>rectIntersected = (\<lambda>a b. a), rectToRect = (\<lambda>r. r)\<rparr>"

definition ex_label :: LabelItem where
  "ex_label = \<lparr>label_pos = (5, 5), label_angle = 0, label_offset = 0, label_text = ''Exit'',
     label_textWidth = 0, label_maxWidth = 0, label_font = ''sans'', label_color = ex_color 1,
     label_icon_isNull = True, label_iconSize = (0, 0),
     label_casingWidth = 0, label_casingColor = ex_color 0,
     label_frameWidth = 0, label_frameColor = ex_color 0,
     label_haloRadius = 0, label_shieldColor = ex_color 0,
     label_bbox = rect_null, label_hasFineBbox = False\<rparr>"

definition ex_scene :: SceneGraph where
  "ex_scene = \<lparr>sg_items = [ex_square 1 10 1,
       \<lparr>item_element = NodeElement (ex_node 1), item_layer = 0, item_z = 1,
        item_payload = Label ex_label\<rparr>],
     sg_layerOffsets = [(0, 2)], sg_backgroundColor = ex_color 1\<rparr>"

section \<open>Properties\<close>

subsection \<open>Elements\<close>

text \<open>
  C10. Every read accessor of a Null element returns the default constructed value: id 0,
  the invalid coordinate, the invalid bounding box, the empty string for the three tag
  lookups and the URL, and the empty outer path. The outer path of a relation that is not
  tagged \<^verbatim>\<open>type=multipolygon\<close> is empty as well.
\<close>

theorem null_element_defaults:
  "element_id Null = 0 \<and>
   center h Null = Coordinate_default \<and>
   boundingBox Null = BoundingBox_default \<and>
   element_tagValue_key Null k = [] \<and>
   element_tagValue Null k = [] \<and>
   element_tagValue_locale Null k loc = [] \<and>
   url h Null = [] \<and>
   outerPath ds Null = [] \<and>
   (tagValue (relation_tags r) ''type'' \<noteq> ''multipolygon'' \<longrightarrow>
      outerPath ds (RelationElement r) = [])"
  by simp

theorem null_element_defaults_witness:
  "tagValue (relation_tags (ex_relation ''building'' [10, 20])) ''type'' \<noteq> ''multipolygon'' \<and>
   outerPath ex_rings (RelationElement (ex_relation ''building'' [10, 20])) = [] \<and>
   outerPath ex_rings Null = [] \<and>
   url ex_helpers Null = [] \<and>
   element_tagValue Null ''level'' = [] \<and>
   center ex_helpers Null = \<lparr>latitude = 2147483647, longitude = 2147483647\<rparr>"
  using null_element_defaults [of ex_helpers "''level''" "\<lparr>locale_language = ''de'', locale_region = ''DE''\<rparr>"
      ex_rings "ex_relation ''building'' [10, 20]"]
  by (simp add: ex_relation_def Coordinate_default_def INT32_MAX_def)

subsection \<open>Hit detection\<close>

lemma insertByArea_set: "set (insertByArea ext x ys) = insert x (set ys)"
  by (induction ys) auto

lemma sortByArea_set: "set (sortByArea ext xs) = set xs"
  by (induction xs) (auto simp: insertByArea_set)

lemma sortByArea_Nil: "sortByArea ext xs = [] \<longleftrightarrow> xs = []"
  by (metis sortByArea_set set_empty)

lemma hd_insertByArea:
  "hd (insertByArea ext x ys) =
     (if ys = [] then x else if bboxArea ext x < bboxArea ext (hd ys) then x else hd ys)"
  by (cases ys) auto

lemma hd_sortByArea_min:
  "xs \<noteq> [] \<Longrightarrow> hd (sortByArea ext xs) \<in> set xs \<and>
     (\<forall>d\<in>set xs. bboxArea ext (hd (sortByArea ext xs)) \<le> bboxArea ext d)"
proof (induction xs)
  case Nil
  then show ?case by simp
next
  case (Cons x xs)
  show ?case
  proof (cases "xs = []")
    case True
    then show ?thesis by simp
  next
    case False
    then have ne: "sortByArea ext xs \<noteq> []" by (simp add: sortByArea_Nil)
    from Cons.IH [OF False] show ?thesis
      using ne by (auto simp: hd_insertByArea)
  qed
qed

lemma ex_itemsAt_two:
  "itemsAt ex_ext ex_view (1, 1) [ex_square 1 10 0.9, ex_square 2 5 0.3] =
     [ex_square 1 10 0.9, ex_square 2 5 0.3]"
  by (simp add: ex_ext_def ex_view_def ex_square_def ex_rectOf_def rect_contains_def ex_color_def)

lemma ex_itemsAt_two':
  "itemsAt ex_ext ex_view (1, 1) [ex_square 2 5 0.3, ex_square 1 10 0.9] =
     [ex_square 2 5 0.3, ex_square 1 10 0.9]"
  by (simp add: ex_ext_def ex_view_def ex_square_def ex_rectOf_def rect_contains_def ex_color_def)

text \<open>
  C1, as amended. When more than one candidate contains the point, \<^verbatim>\<open>itemAt\<close> looks at
  the topmost candidate only (the last one in scene order): if its fill alpha is at least
  0.5 (a label, a polyline or another payload counts as alpha 1) it is returned; otherwise
  a candidate of least bounding box area among all candidates is returned.
\<close>

theorem itemAt_multiple_candidates:
  assumes "1 < length (itemsAt ext view pos sg)"
  shows "(0.5 \<le> itemFillAlpha (last (itemsAt ext view pos sg)) \<longrightarrow>
           itemAt ext view pos sg = Some (last (itemsAt ext view pos sg))) \<and>
         (itemFillAlpha (last (itemsAt ext view pos sg)) < 0.5 \<longrightarrow>
           (\<exists>c \<in> set (itemsAt ext view pos sg). itemAt ext view pos sg = Some c \<and>
              (\<forall>d \<in> set (itemsAt ext view pos sg). bboxArea ext c \<le> bboxArea ext d)))"
proof -
  let ?items = "itemsAt ext view pos sg"
  have ne: "?items \<noteq> []" and n1: "length ?items \<noteq> 1"
    using assms by auto
  have top: "0.5 \<le> itemFillAlpha (last ?items) \<Longrightarrow> itemAt ext view pos sg = Some (last ?items)"
    using ne n1 by (simp add: itemAt_def Let_def del: itemFillAlpha.simps)
  have small: "itemFillAlpha (last ?items) < 0.5 \<Longrightarrow>
      itemAt ext view pos sg = Some (hd (sortByArea ext ?items))"
    using ne n1 by (simp add: itemAt_def Let_def del: itemFillAlpha.simps)
  show ?thesis
    using top small hd_sortByArea_min [OF ne] by blast
qed

theorem itemAt_multiple_candidates_witness:
  "1 < length (itemsAt ex_ext ex_view (1, 1) [ex_square 2 5 0.3, ex_square 1 10 0.9]) \<and>
   0.5 \<le> itemFillAlpha (ex_square 1 10 0.9) \<and>
   itemAt ex_ext ex_view (1, 1) [ex_square 2 5 0.3, ex_square 1 10 0.9] = Some (ex_square 1 10 0.9)"
  using itemAt_multiple_candidates [of ex_ext ex_view "(1, 1)" "[ex_square 2 5 0.3, ex_square 1 10 0.9]"]
  unfolding ex_itemsAt_two'
  by (simp add: ex_square_def ex_color_def)

text \<open>
  The claim as stated fails where a candidate of fill alpha 0.9 lies below a smaller
  candidate of fill alpha 0.3: the topmost candidate with alpha at least 0.5 is the
  first square, and \<^verbatim>\<open>itemAt\<close> returns the second.
\<close>

theorem itemAt_topmost_opaque_counterexample:
  "topmostOpaque (itemsAt ex_ext ex_view (1, 1) [ex_square 1 10 0.9, ex_square 2 5 0.3])
     = Some (ex_square 1 10 0.9) \<and>
   itemAt ex_ext ex_view (1, 1) [ex_square 1 10 0.9, ex_square 2 5 0.3] = Some (ex_square 2 5 0.3) \<and>
   ex_square 2 5 0.3 \<noteq> ex_square 1 10 0.9 \<and>
   itemFillAlpha (ex_square 2 5 0.3) < 0.5"
  unfolding itemAt_def ex_itemsAt_two
  by (simp add: topmostOpaque_def ex_ext_def ex_square_def ex_rectOf_def ex_color_def bboxArea_def ex_way_def)



subsection \<open>Navigation mesh builder: off-mesh connections and level index\<close>

text \<open>
  C6. An off-mesh connection added with direction Backward writes the same record as one
  added with direction Forward and the two end points exchanged. The direction flag of the
  record is 1 for a bidirectional link and 0 for a forward or a backward one.
\<close>

theorem backward_is_swapped_forward:
  "addOffMeshConnection ext st x1 y1 z1 x2 y2 z2 Backward a
     = addOffMeshConnection ext st x2 y2 z2 x1 y1 z1 Forward a \<and>
   m_gsetData (addOffMeshConnection ext st x1 y1 z1 x2 y2 z2 Forward a)
     = m_gsetData st @ connectionRecord ext x1 y1 z1 x2 y2 z2 ''0'' a \<and>
   m_gsetData (addOffMeshConnection ext st x1 y1 z1 x2 y2 z2 Backward a)
     = m_gsetData st @ connectionRecord ext x2 y2 z2 x1 y1 z1 ''0'' a \<and>
   m_gsetData (addOffMeshConnection ext st x1 y1 z1 x2 y2 z2 Bidirectional a)
     = m_gsetData st @ connectionRecord ext x1 y1 z1 x2 y2 z2 ''1'' a"
  by (simp add: addOffMeshConnection_def connectionRecord_def)

lemma merged_Nil: "merged v [] = v"
  by (simp add: merged_def split: option.splits)

lemma merged_Cons:
  "merged v (l # ls) =
     merged (case v of None \<Rightarrow> Some l | Some l0 \<Rightarrow> if l0 \<noteq> l then Some INT_MIN else Some l0) ls"
  by (auto simp: merged_def split: option.splits)

lemma merged_append: "merged v (xs @ ys) = merged (merged v xs) ys"
  by (induction xs arbitrary: v) (simp_all add: merged_Nil merged_Cons)

lemma addNode_lookup:
  "m_nodeLevelMap (addNodeToLevelIndex st i level) n =
     (if i = n then merged (m_nodeLevelMap st n) [level] else m_nodeLevelMap st n)"
  by (auto simp: addNodeToLevelIndex_def merged_def split: option.splits)

lemma fold_addNode_lookup:
  "m_nodeLevelMap (fold (\<lambda>nodeId st'. addNodeToLevelIndex st' nodeId level) ids st) n =
     merged (m_nodeLevelMap st n) (map (\<lambda>x. level) (filter (\<lambda>i. i = n) ids))"
proof (induction ids arbitrary: st)
  case Nil
  then show ?case by (simp add: merged_Nil)
next
  case (Cons i ids)
  show ?case
    by (simp add: Cons.IH addNode_lookup merged_Cons) (simp add: merged_def split: option.splits)
qed

lemma indexElement_lookup:
  "e \<noteq> Null \<Longrightarrow> \<exists>st'. indexElement st level e = Inr st' \<and>
     m_nodeLevelMap st' n = merged (m_nodeLevelMap st n)
        (map (\<lambda>x. level) (filter (\<lambda>i. i = n) (indexedNodes e)))"
  by (cases e) (auto simp: merged_Nil fold_addNode_lookup Let_def)

lemma indexElements_lookup:
  "Null \<notin> set es \<Longrightarrow> \<exists>st'. indexElements st level es = Inr st' \<and>
     m_nodeLevelMap st' n = merged (m_nodeLevelMap st n)
        (concat (map (\<lambda>e. map (\<lambda>x. level) (filter (\<lambda>i. i = n) (indexedNodes e))) es))"
proof (induction es arbitrary: st)
  case Nil
  then show ?case by (simp add: merged_Nil)
next
  case (Cons e es)
  then have "e \<noteq> Null" and es: "Null \<notin> set es" by auto
  from indexElement_lookup [OF this(1), of st level n]
  obtain st1 where s1: "indexElement st level e = Inr st1"
    and m1: "m_nodeLevelMap st1 n = merged (m_nodeLevelMap st n)
        (map (\<lambda>x. level) (filter (\<lambda>i. i = n) (indexedNodes e)))"
    by blast
  from Cons.IH [OF es, of st1] obtain st2 where s2: "indexElements st1 level es = Inr st2"
    and m2: "m_nodeLevelMap st2 n = merged (m_nodeLevelMap st1 n)
        (concat (map (\<lambda>e. map (\<lambda>x. level) (filter (\<lambda>i. i = n) (indexedNodes e))) es))"
    by blast
  show ?case
    using s1 s2 m1 m2 by (simp add: merged_append)
qed

lemma indexNodeLevels_lookup:
  "noNullElements levelMap \<Longrightarrow> \<exists>st'. indexNodeLevels st levelMap = Inr st' \<and>
     m_nodeLevelMap st' n = merged (m_nodeLevelMap st n) (seenLevels levelMap n)"
proof (induction levelMap arbitrary: st)
  case Nil
  then show ?case by (simp add: merged_Nil seenLevels_def)
next
  case (Cons level levels)
  then have rest: "noNullElements levels"
    by (simp add: noNullElements_def)
  show ?case
  proof (cases "numericLevel (fst level) = 0")
    case True
    then show ?thesis
      using Cons.IH [OF rest, of st] by (simp add: seenLevels_def)
  next
    case False
    then have "Null \<notin> set (snd level)"
      using Cons.prems by (auto simp: noNullElements_def list_all_iff)
    from indexElements_lookup [OF this, of st "numericLevel (fst level)" n]
    obtain st1 where s1: "indexElements st (numericLevel (fst level)) (snd level) = Inr st1"
      and m1: "m_nodeLevelMap st1 n = merged (m_nodeLevelMap st n)
        (concat (map (\<lambda>e. map (\<lambda>x. numericLevel (fst level)) (filter (\<lambda>i. i = n) (indexedNodes e)))
           (snd level)))"
      by blast
    from Cons.IH [OF rest, of st1] obtain st2 where s2: "indexNodeLevels st1 levels = Inr st2"
      and m2: "m_nodeLevelMap st2 n = merged (m_nodeLevelMap st1 n) (seenLevels levels n)"
      by blast
    show ?thesis
      using False s1 s2 m1 m2 by (simp add: seenLevels_def merged_append)
  qed
qed

lemma seenLevels_iff:
  "l \<in> set (seenLevels levelMap n) \<longleftrightarrow>
     (\<exists>level w. level \<in> set levelMap \<and> numericLevel (fst level) = l \<and> l \<noteq> 0 \<and>
        WayElement w \<in> set (snd level) \<and> tagValue (way_tags w) ''level'' \<noteq> [] \<and>
        CHR '';'' \<notin> set (tagValue (way_tags w) ''level'') \<and> n \<in> set (way_nodes w))"
proof -
  have ix: "\<And>e. n \<in> set (indexedNodes e) \<longleftrightarrow>
      (\<exists>w. e = WayElement w \<and> tagValue (way_tags w) ''level'' \<noteq> [] \<and>
        CHR '';'' \<notin> set (tagValue (way_tags w) ''level'') \<and> n \<in> set (way_nodes w))"
    subgoal for e by (cases e) (auto simp: Let_def)
    done
  have "l \<in> set (seenLevels levelMap n) \<longleftrightarrow>
      (\<exists>level \<in> set levelMap. numericLevel (fst level) \<noteq> 0 \<and> numericLevel (fst level) = l \<and>
         (\<exists>e \<in> set (snd level). n \<in> set (indexedNodes e)))"
    by (auto simp: seenLevels_def split: if_splits)
  then show ?thesis
    unfolding ix by blast
qed

lemma levelsSeen_eq: "levelsSeen levelMap n = set (seenLevels levelMap n)"
  unfolding levelsSeen_def using seenLevels_iff [of _ levelMap n] by blast

lemma merged_None_empty: "merged None ls = None \<longleftrightarrow> ls = []"
  by (cases ls) (auto simp: merged_def)

lemma merged_None_single: "set ls = {l} \<Longrightarrow> merged None ls = Some l"
  by (cases ls) (auto simp: merged_def list_all_iff)

lemma merged_None_conflict:
  "l1 \<in> set ls \<Longrightarrow> l2 \<in> set ls \<Longrightarrow> l1 \<noteq> l2 \<Longrightarrow> merged None ls = Some INT_MIN"
proof (cases ls)
  case Nil
  then show "l1 \<in> set ls \<Longrightarrow> merged None ls = Some INT_MIN" by simp
next
  case (Cons a as)
  assume "l1 \<in> set ls" "l2 \<in> set ls" "l1 \<noteq> l2"
  then have "\<not> (\<forall>x\<in>set as. x = a)"
    using Cons by (metis set_ConsD)
  then show "merged None ls = Some INT_MIN"
    using Cons by (auto simp: merged_def list_all_iff)
qed

text \<open>
  C5. Starting from the empty index, the level index pass succeeds on a level map without
  null elements, and afterwards the index has an entry for exactly the node ids of the ways
  with a single valued level tag in the entries of the level map whose level is not zero
  (\<^const>\<open>levelsSeen\<close> is the set of levels of those entries for a node). A node seen at one
  level maps to it, a node seen at two different levels maps to \<^const>\<open>INT_MIN\<close>, and the
  lookup of a node never seen gives level 0.
\<close>

theorem level_index:
  assumes "noNullElements levelMap"
  shows "\<exists>st'. indexNodeLevels (st\<lparr>m_nodeLevelMap := Map.empty\<rparr>) levelMap = Inr st' \<and>
     (\<forall>n. (n \<in> dom (m_nodeLevelMap st') \<longleftrightarrow> levelsSeen levelMap n \<noteq> {}) \<and>
          (levelsSeen levelMap n = {} \<longrightarrow> levelForNode st' n = 0) \<and>
          (\<forall>l. levelsSeen levelMap n = {l} \<longrightarrow> levelForNode st' n = l) \<and>
          (\<forall>l1 l2. l1 \<in> levelsSeen levelMap n \<and> l2 \<in> levelsSeen levelMap n \<and> l1 \<noteq> l2 \<longrightarrow>
              levelForNode st' n = INT_MIN))"
proof -
  let ?st0 = "st\<lparr>m_nodeLevelMap := Map.empty\<rparr>"
  have "\<exists>st'. indexNodeLevels ?st0 levelMap = Inr st' \<and>
      (\<forall>n. m_nodeLevelMap st' n = merged None (seenLevels levelMap n))"
  proof -
    obtain st' where r: "indexNodeLevels ?st0 levelMap = Inr st'"
      using indexNodeLevels_lookup [OF assms, of ?st0] by blast
    have "m_nodeLevelMap st' n = merged None (seenLevels levelMap n)" for n
      using indexNodeLevels_lookup [OF assms, of ?st0 n] r by simp
    then show ?thesis using r by blast
  qed
  then obtain st' where r: "indexNodeLevels ?st0 levelMap = Inr st'"
    and m: "\<And>n. m_nodeLevelMap st' n = merged None (seenLevels levelMap n)"
    by blast
  have "(n \<in> dom (m_nodeLevelMap st') \<longleftrightarrow> levelsSeen levelMap n \<noteq> {}) \<and>
        (levelsSeen levelMap n = {} \<longrightarrow> levelForNode st' n = 0) \<and>
        (\<forall>l. levelsSeen levelMap n = {l} \<longrightarrow> levelForNode st' n = l) \<and>
        (\<forall>l1 l2. l1 \<in> levelsSeen levelMap n \<and> l2 \<in> levelsSeen levelMap n \<and> l1 \<noteq> l2 \<longrightarrow>
              levelForNode st' n = INT_MIN)" for n
  proof (intro conjI allI impI)
    show "n \<in> dom (m_nodeLevelMap st') \<longleftrightarrow> levelsSeen levelMap n \<noteq> {}"
      using merged_None_empty [of "seenLevels levelMap n"]
      by (auto simp: dom_def m levelsSeen_eq)
    show "levelForNode st' n = 0" if "levelsSeen levelMap n = {}"
      using that merged_None_empty [of "seenLevels levelMap n"]
      by (simp add: levelForNode_def m levelsSeen_eq)
    show "levelForNode st' n = l" if "levelsSeen levelMap n = {l}" for l
      using that merged_None_single [of "seenLevels levelMap n" l]
      by (simp add: levelForNode_def m levelsSeen_eq)
    show "levelForNode st' n = INT_MIN"
      if "l1 \<in> levelsSeen levelMap n \<and> l2 \<in> levelsSeen levelMap n \<and> l1 \<noteq> l2" for l1 l2
      using that merged_None_conflict [of l1 "seenLevels levelMap n" l2]
      by (simp add: levelForNode_def m levelsSeen_eq)
  qed
  then show ?thesis using r by blast
qed

theorem level_index_witness:
  "noNullElements ex_levelMap \<and>
   (\<exists>st'. indexNodeLevels ex_builder ex_levelMap = Inr st' \<and>
      levelForNode st' 1 = 10 \<and> levelForNode st' 2 = INT_MIN \<and> levelForNode st' 3 = 20 \<and>
      levelForNode st' 4 = 0 \<and> levelForNode st' 5 = 0 \<and> dom (m_nodeLevelMap st') = {1, 2, 3})"
proof -
  have h: "noNullElements ex_levelMap"
    by (simp add: noNullElements_def ex_levelMap_def ex_levelWay_def)
  have s: "levelsSeen ex_levelMap 1 = {10}" "levelsSeen ex_levelMap 2 = {10, 20}"
    "levelsSeen ex_levelMap 3 = {20}" "levelsSeen ex_levelMap 4 = {}" "levelsSeen ex_levelMap 5 = {}"
    by (auto simp: levelsSeen_eq seenLevels_def ex_levelMap_def ex_levelWay_def MapLevel_of_def)
  have d: "{n. levelsSeen ex_levelMap n \<noteq> {}} = {1, 2, 3}"
    by (auto simp: levelsSeen_eq seenLevels_def ex_levelMap_def ex_levelWay_def MapLevel_of_def
        split: if_splits)
  have e: "ex_builder\<lparr>m_nodeLevelMap := Map.empty\<rparr> = ex_builder"
    by (simp add: ex_builder_def)
  from level_index [OF h, of ex_builder] obtain st' where
    r: "indexNodeLevels ex_builder ex_levelMap = Inr st'"
    and p: "\<And>n. (n \<in> dom (m_nodeLevelMap st') \<longleftrightarrow> levelsSeen ex_levelMap n \<noteq> {}) \<and>
          (levelsSeen ex_levelMap n = {} \<longrightarrow> levelForNode st' n = 0) \<and>
          (\<forall>l. levelsSeen ex_levelMap n = {l} \<longrightarrow> levelForNode st' n = l) \<and>
          (\<forall>l1 l2. l1 \<in> levelsSeen ex_levelMap n \<and> l2 \<in> levelsSeen ex_levelMap n \<and> l1 \<noteq> l2 \<longrightarrow>
              levelForNode st' n = INT_MIN)"
    unfolding e by (auto simp only:)
  have l1: "levelForNode st' 1 = 10" using p [of 1] s by simp
  have l2: "levelForNode st' 2 = INT_MIN"
  proof -
    have "10 \<in> levelsSeen ex_levelMap 2 \<and> 20 \<in> levelsSeen ex_levelMap 2 \<and> (10::int) \<noteq> 20"
      using s by simp
    then show ?thesis using p [of 2] by blast
  qed
  have l3: "levelForNode st' 3 = 20" using p [of 3] s by simp
  have l4: "levelForNode st' 4 = 0" using p [of 4] s by simp
  have l5: "levelForNode st' 5 = 0" using p [of 5] s by simp
  have q: "n \<in> dom (m_nodeLevelMap st') \<longleftrightarrow> levelsSeen ex_levelMap n \<noteq> {}" for n
    using p [of n] by (rule conjunct1)
  have "dom (m_nodeLevelMap st') = {n. levelsSeen ex_levelMap n \<noteq> {}}"
    by (rule set_eqI, unfold mem_Collect_eq, rule q)
  then have l6: "dom (m_nodeLevelMap st') = {1, 2, 3}"
    by (simp only: d)
  show ?thesis
    by (rule conjI [OF h]) (rule exI [of _ st'], simp only: r l1 l2 l3 l4 l5 l6 simp_thms)
qed

subsection \<open>Navigation mesh builder: walls\<close>

lemma appendNodesFromWay_eq:
  "appendNodesFromWay ds nodes ids = nodes @ List.map_filter (findNode ds) ids"
  by (induction ids arbitrary: nodes) (auto simp: List.map_filter_simps split: option.splits)

lemma length_segments: "length (segments xs) = length xs - 1"
  by (simp add: segments_def)

lemma drop_segments:
  "Suc i < length xs \<Longrightarrow> drop i (segments xs) = (xs ! i, xs ! Suc i) # drop (Suc i) (segments xs)"
proof -
  assume a: "Suc i < length xs"
  then have "i < length (segments xs)" by (simp add: length_segments)
  then have "drop i (segments xs) = segments xs ! i # drop (Suc i) (segments xs)"
    by (simp add: Cons_nth_drop_Suc)
  moreover have "segments xs ! i = (xs ! i, xs ! Suc i)"
    using a by (simp add: segments_def nth_tl)
  ultimately show ?thesis by simp
qed

lemma extrudeLoop_fold:
  "way \<noteq> [] \<Longrightarrow> i < length way \<Longrightarrow>
   extrudeLoop ext fl way i st = Inr (fold (wallStep ext fl) (drop i (segments way)) st)"
proof (induction "length way - i" arbitrary: i st)
  case 0
  then show ?case by simp
next
  case (Suc k)
  have b: "extrudeBound way = length way - 1"
    using Suc.prems by (simp add: extrudeBound_def)
  show ?case
  proof (cases "Suc i < length way")
    case True
    have k: "k = length way - Suc i" using Suc.hyps(2) by simp
    have ih: "extrudeLoop ext fl way (Suc i) s = Inr (fold (wallStep ext fl) (drop (Suc i) (segments way)) s)" for s
      using Suc.hyps(1) [OF k Suc.prems(1) True] .
    have lt: "i < extrudeBound way" using True b by simp
    show ?thesis
      using True lt Suc.prems(2)
      by (subst extrudeLoop.simps) (simp add: ih drop_segments wallStep_def)
  next
    case False
    then have "\<not> i < extrudeBound way" using b by simp
    moreover have "drop i (segments way) = []"
      using False by (simp add: length_segments)
    ultimately show ?thesis
      by (subst extrudeLoop.simps) simp
  qed
qed

lemma extrudeLoop_empty: "extrudeLoop ext fl [] 0 st = Inl OutOfRange"
  by (subst extrudeLoop.simps) (simp add: extrudeBound_def)

lemma extrudeSegment_records:
  "extrudeSegment ext s fl a b =
     s\<lparr>m_vertexOffset := m_vertexOffset s + 4,
       m_objVertices := m_objVertices s
         @ vertexRecord ext (fst (mapGeoToNavC ext (node_coordinate a))) (mapHeightToNav ext fl)
             (snd (mapGeoToNavC ext (node_coordinate a)))
         @ vertexRecord ext (fst (mapGeoToNavC ext (node_coordinate b))) (mapHeightToNav ext fl)
             (snd (mapGeoToNavC ext (node_coordinate b)))
         @ vertexRecord ext (fst (mapGeoToNavC ext (node_coordinate a))) (mapHeightToNav ext (fl + 10))
             (snd (mapGeoToNavC ext (node_coordinate a)))
         @ vertexRecord ext (fst (mapGeoToNavC ext (node_coordinate b))) (mapHeightToNav ext (fl + 10))
             (snd (mapGeoToNavC ext (node_coordinate b))),
       m_objFaces := m_objFaces s
         @ faceRecord ext (m_vertexOffset s) (m_vertexOffset s + 1) (m_vertexOffset s + 2)
         @ faceRecord ext (m_vertexOffset s + 1) (m_vertexOffset s + 3) (m_vertexOffset s + 2)\<rparr>"
  by (simp add: extrudeSegment_def Let_def addVertex_def addFace_def vertexRecord_def faceRecord_def)

text \<open>
  C4, as amended. For an element with a positive extrude value and a non-empty outer
  path, the extrude pass handles the consecutive segments of the outer path in order. A
  segment with a door node at either end leaves the output as it is. Every other segment
  appends four vertices, the two end points at the height of the floor and at the height
  of the level one story above (\<open>floorLevel + 10\<close>), and two triangles over them that form
  one wall quad, and moves the vertex offset on by four.
\<close>

theorem extrude_walls:
  assumes "hasExtrudeProperties res" and "extrudeValue res = Some v" and "0 < v"
    and "outerPath ds elem \<noteq> []"
  shows "processGeometry_extrude ext ds st elem floorLevel res
           = Inr (fold (wallStep ext floorLevel) (segments (outerPath ds elem)) st) \<and>
         (\<forall>s a b. wallStep ext floorLevel (a, b) s =
            (if isDoor a \<or> isDoor b then s
             else s\<lparr>m_vertexOffset := m_vertexOffset s + 4,
               m_objVertices := m_objVertices s
                 @ vertexRecord ext (fst (mapGeoToNavC ext (node_coordinate a)))
                     (mapHeightToNav ext floorLevel) (snd (mapGeoToNavC ext (node_coordinate a)))
                 @ vertexRecord ext (fst (mapGeoToNavC ext (node_coordinate b)))
                     (mapHeightToNav ext floorLevel) (snd (mapGeoToNavC ext (node_coordinate b)))
                 @ vertexRecord ext (fst (mapGeoToNavC ext (node_coordinate a)))
                     (mapHeightToNav ext (floorLevel + 10)) (snd (mapGeoToNavC ext (node_coordinate a)))
                 @ vertexRecord ext (fst (mapGeoToNavC ext (node_coordinate b)))
                     (mapHeightToNav ext (floorLevel + 10)) (snd (mapGeoToNavC ext (node_coordinate b))),
               m_objFaces := m_objFaces s
                 @ faceRecord ext (m_vertexOffset s) (m_vertexOffset s + 1) (m_vertexOffset s + 2)
                 @ faceRecord ext (m_vertexOffset s + 1) (m_vertexOffset s + 3) (m_vertexOffset s + 2)\<rparr>))"
proof -
  have "processGeometry_extrude ext ds st elem floorLevel res
      = extrudeLoop ext floorLevel (outerPath ds elem) 0 st"
    using assms by (simp add: processGeometry_extrude_def)
  also have "\<dots> = Inr (fold (wallStep ext floorLevel) (drop 0 (segments (outerPath ds elem))) st)"
    using assms(4) by (intro extrudeLoop_fold) simp_all
  finally have 1: "processGeometry_extrude ext ds st elem floorLevel res
           = Inr (fold (wallStep ext floorLevel) (segments (outerPath ds elem)) st)"
    by simp
  show ?thesis
    by (rule conjI [OF 1]) (simp add: wallStep_def extrudeSegment_records)
qed

lemma ex_doors_path:
  "outerPath ex_doors (WayElement (ex_way 40 [1, 2, 3, 4, 5])) = ds_nodes ex_doors"
  by (simp add: appendNodesFromWay_eq findNode_def ex_doors_def ex_way_def
      ex_node_def)

theorem extrude_walls_witness:
  "hasExtrudeProperties ex_extrude \<and> extrudeValue ex_extrude = Some 1 \<and>
   outerPath ex_doors (WayElement (ex_way 40 [1, 2, 3, 4, 5])) \<noteq> [] \<and>
   (\<exists>st'. processGeometry_extrude ex_nav ex_doors ex_builder
            (WayElement (ex_way 40 [1, 2, 3, 4, 5])) 0 ex_extrude = Inr st' \<and>
      m_objFaces st' = faceRecord ex_nav 1 2 3 @ faceRecord ex_nav 2 4 3
                     @ faceRecord ex_nav 5 6 7 @ faceRecord ex_nav 6 8 7 \<and>
      m_vertexOffset st' = 9)"
proof -
  have h1: "hasExtrudeProperties ex_extrude" "extrudeValue ex_extrude = Some 1" "(0::real) < 1"
    by (simp_all add: ex_extrude_def)
  have h2: "outerPath ex_doors (WayElement (ex_way 40 [1, 2, 3, 4, 5])) \<noteq> []"
    unfolding ex_doors_path by (simp add: ex_doors_def)
  note h = h1 h2
  note t = extrude_walls [OF h, of ex_nav ex_builder 0]
  have r: "processGeometry_extrude ex_nav ex_doors ex_builder
            (WayElement (ex_way 40 [1, 2, 3, 4, 5])) 0 ex_extrude
      = Inr (fold (wallStep ex_nav 0) (segments (ds_nodes ex_doors)) ex_builder)"
    using t by (simp only: ex_doors_path)
  have f: "m_objFaces (fold (wallStep ex_nav 0) (segments (ds_nodes ex_doors)) ex_builder)
      = faceRecord ex_nav 1 2 3 @ faceRecord ex_nav 2 4 3
                     @ faceRecord ex_nav 5 6 7 @ faceRecord ex_nav 6 8 7"
    by (simp add: segments_def ex_doors_def wallStep_def isDoor_def ex_node_def
        extrudeSegment_records ex_builder_def)
  have o: "m_vertexOffset (fold (wallStep ex_nav 0) (segments (ds_nodes ex_doors)) ex_builder) = 9"
    by (simp add: segments_def ex_doors_def wallStep_def isDoor_def ex_node_def
        extrudeSegment_records ex_builder_def)
  show ?thesis
    using h r f o by simp
qed

text \<open>
  The claim speaks of two quads for a segment. For the single segment between the nodes 1
  and 2 the pass writes four vertices and the two triangles 1 2 3 and 2 4 3, which is one
  quad. For a way none of whose nodes is in the data set the outer path is empty, the
  loop bound wraps around and the first read is past the end of the path.
\<close>

theorem extrude_two_triangles_counterexample:
  "processGeometry_extrude ex_nav ex_rings ex_builder (WayElement (ex_way 30 [1, 2])) 0 ex_extrude
     = Inr (ex_builder\<lparr>m_vertexOffset := 5,
         m_objVertices := vertexRecord ex_nav 2 0 1 @ vertexRecord ex_nav 4 0 2
           @ vertexRecord ex_nav 2 1 1 @ vertexRecord ex_nav 4 1 2,
         m_objFaces := faceRecord ex_nav 1 2 3 @ faceRecord ex_nav 2 4 3\<rparr>) \<and>
   processGeometry_extrude ex_nav ex_rings ex_builder (WayElement (ex_way 31 [7, 8])) 0 ex_extrude
     = Inl OutOfRange"
proof -
  have p: "outerPath ex_rings (WayElement (ex_way 30 [1, 2])) = [ex_node 1, ex_node 2]"
    by (simp add: appendNodesFromWay_eq findNode_def ex_rings_def ex_way_def
      ex_node_def)
  have q: "outerPath ex_rings (WayElement (ex_way 31 [7, 8])) = []"
    by (simp add: appendNodesFromWay_eq findNode_def ex_rings_def ex_way_def
      ex_node_def)
  have a: "processGeometry_extrude ex_nav ex_rings ex_builder (WayElement (ex_way 30 [1, 2])) 0 ex_extrude
     = Inr (fold (wallStep ex_nav 0) (segments [ex_node 1, ex_node 2]) ex_builder)"
    unfolding processGeometry_extrude_def p
    by (simp add: ex_extrude_def extrudeLoop_fold)
  have b: "processGeometry_extrude ex_nav ex_rings ex_builder (WayElement (ex_way 31 [7, 8])) 0 ex_extrude
     = Inl OutOfRange"
    unfolding processGeometry_extrude_def q
    by (simp add: ex_extrude_def extrudeLoop_empty)
  show ?thesis
    unfolding a b
    by (simp add: segments_def wallStep_def isDoor_def ex_node_def extrudeSegment_records
        ex_builder_def ex_nav_def)
qed

subsection \<open>Navigation mesh builder: stroked lines\<close>












subsection \<open>Multipolygon stitching\<close>




























subsection \<open>Floor level changes\<close>





































subsection \<open>Rendering\<close>

lemma renderLabel_item:
  "fst (renderLabel ext rext view l p)
     = (if label_hasFineBbox l then l
        else fst (labelFineBbox ext l
               (p @ [Save, Translate (mapSceneToScreen view (label_pos l)), Rotate (label_angle l)])))"
  by (simp add: renderLabel_def Let_def split_beta)

lemma labelFineBbox_item:
  "fst (labelFineBbox ext l p)
     = l\<lparr>label_bbox := label_bbox (fst (labelFineBbox ext l p)), label_hasFineBbox := True\<rparr>"
  by (simp add: labelFineBbox_def Let_def)

lemma renderLabel_cache:
  "fst (renderLabel ext rext view l p) = l \<or> labelCacheWritten l (fst (renderLabel ext rext view l p))"
proof (cases "label_hasFineBbox l")
  case True
  then show ?thesis by (simp add: renderLabel_item)
next
  case False
  let ?p = "p @ [Save, Translate (mapSceneToScreen view (label_pos l)), Rotate (label_angle l)]"
  have r: "fst (renderLabel ext rext view l p) = fst (labelFineBbox ext l ?p)"
    using False by (simp add: renderLabel_item)
  have "labelCacheWritten l (fst (labelFineBbox ext l ?p))"
    unfolding labelCacheWritten_def using False labelFineBbox_item [of ext l ?p]
    by (metis (no_types) LabelItem.select_convs(18) LabelItem.surjective LabelItem.update_convs(18))
  then show ?thesis
    unfolding r by simp
qed

lemma unchanged_refl: "unchangedExceptLabelCache a a"
  by (simp add: unchangedExceptLabelCache_def)

lemma unchanged_trans:
  "unchangedExceptLabelCache a b \<Longrightarrow> unchangedExceptLabelCache b c \<Longrightarrow> unchangedExceptLabelCache a c"
  by (auto simp: unchangedExceptLabelCache_def labelCacheWritten_def split: Payload.splits)

lemma frame_refl: "list_all2 unchangedExceptLabelCache xs xs"
  by (simp add: list_all2_refl unchanged_refl)

lemma frame_trans:
  "list_all2 unchangedExceptLabelCache xs ys \<Longrightarrow> list_all2 unchangedExceptLabelCache ys zs \<Longrightarrow>
   list_all2 unchangedExceptLabelCache xs zs"
  by (rule list_all2_trans [OF unchanged_trans])

lemma renderBatchItem_frame:
  "list_all2 unchangedExceptLabelCache (fst s) (fst (renderBatchItem ext rext view phase idx s))"
proof (cases "phase \<notin> renderPhases ext (item_payload (fst s ! idx))")
  case True
  then show ?thesis by (simp add: renderBatchItem_def Let_def frame_refl)
next
  case False
  show ?thesis
  proof (cases "item_payload (fst s ! idx)")
    case (Label l)
    obtain l' p' where r: "renderLabel ext rext view l (snd s) = (l', p')"
      by (cases "renderLabel ext rext view l (snd s)") auto
    then have c: "l' = l \<or> labelCacheWritten l l'"
      using renderLabel_cache [of ext rext view l "snd s"] by simp
    have u: "unchangedExceptLabelCache (fst s ! idx) ((fst s ! idx)\<lparr>item_payload := Label l'\<rparr>)"
      using c Label by (auto simp: unchangedExceptLabelCache_def)
    have "fst (renderBatchItem ext rext view phase idx s)
        = (fst s)[idx := (fst s ! idx)\<lparr>item_payload := Label l'\<rparr>]"
      using False Label r by (simp add: renderBatchItem_def Let_def)
    moreover have "unchangedExceptLabelCache (fst s ! i)
        ((fst s)[idx := (fst s ! idx)\<lparr>item_payload := Label l'\<rparr>] ! i)"
      if "i < length (fst s)" for i
    proof (cases "i = idx")
      case True
      then show ?thesis using u that by simp
    next
      case False
      then show ?thesis by (simp add: unchanged_refl)
    qed
    then have "list_all2 unchangedExceptLabelCache (fst s)
        ((fst s)[idx := (fst s ! idx)\<lparr>item_payload := Label l'\<rparr>])"
      by (simp add: list_all2_conv_all_nth)
    ultimately show ?thesis by simp
  qed (use False in \<open>simp_all add: renderBatchItem_def Let_def frame_refl\<close>)
qed

lemma renderBatch_frame:
  "list_all2 unchangedExceptLabelCache xs (fst s) \<Longrightarrow>
   list_all2 unchangedExceptLabelCache xs (fst (fold (renderBatchItem ext rext view phase) batch s))"
proof (induction batch arbitrary: s)
  case Nil
  then show ?case by simp
next
  case (Cons idx batch)
  have "list_all2 unchangedExceptLabelCache xs (fst (renderBatchItem ext rext view phase idx s))"
    using Cons.prems renderBatchItem_frame by (rule frame_trans)
  then show ?case using Cons.IH by simp
qed

lemma renderPhase_frame:
  "list_all2 unchangedExceptLabelCache xs (fst s) \<Longrightarrow>
   list_all2 unchangedExceptLabelCache xs (fst (renderPhase ext rext view batch phase s))"
  unfolding renderPhase_def by (rule renderBatch_frame) simp

lemma renderPhases_frame:
  "list_all2 unchangedExceptLabelCache xs (fst s) \<Longrightarrow>
   list_all2 unchangedExceptLabelCache xs (fst (fold (renderPhase ext rext view batch) phases s))"
proof (induction phases arbitrary: s)
  case Nil
  then show ?case by simp
next
  case (Cons ph phases)
  then show ?case using renderPhase_frame by simp
qed

lemma renderLayer_frame:
  "renderLayer ext rext view l s = Inr s' \<Longrightarrow> list_all2 unchangedExceptLabelCache xs (fst s) \<Longrightarrow>
   list_all2 unchangedExceptLabelCache xs (fst s')"
proof -
  assume a: "renderLayer ext rext view l s = Inr s'"
    and f: "list_all2 unchangedExceptLabelCache xs (fst s)"
  let ?batch = "concat (map (batchEntries ext view (fst s)) [fst l ..< snd l])"
  have e: "s' = fold (renderPhase ext rext view ?batch)
      [FillPhase, CasingPhase, StrokePhase, LabelPhase] s"
    using a by (simp add: renderLayer_def Let_def del: fold_simps split: if_splits)
  show ?thesis
    unfolding e by (rule renderPhases_frame [OF f])
qed

lemma renderLayers_frame:
  "renderLayers ext rext view ls s = Inr s' \<Longrightarrow> list_all2 unchangedExceptLabelCache xs (fst s) \<Longrightarrow>
   list_all2 unchangedExceptLabelCache xs (fst s')"
proof (induction ls arbitrary: s)
  case Nil
  then show ?case by simp
next
  case (Cons l ls)
  from Cons.prems(1) obtain s1 where a: "renderLayer ext rext view l s = Inr s1"
    and b: "renderLayers ext rext view ls s1 = Inr s'"
    by (auto split: sum.splits)
  have "list_all2 unchangedExceptLabelCache xs (fst s1)"
    using a Cons.prems(2) by (rule renderLayer_frame)
  with b show ?case by (rule Cons.IH)
qed

lemma renderLayers_total:
  "\<forall>l\<in>set ls. fst l \<le> snd l \<and> snd l \<le> length (fst s) \<Longrightarrow>
   \<exists>s'. renderLayers ext rext view ls s = Inr s'"
proof (induction ls arbitrary: s)
  case Nil
  then show ?case by simp
next
  case (Cons l ls)
  have v: "fst l \<le> snd l \<and> snd l \<le> length (fst s)"
    using Cons.prems by simp
  then obtain s1 where a: "renderLayer ext rext view l s = Inr s1"
    by (simp add: renderLayer_def Let_def)
  have "list_all2 unchangedExceptLabelCache (fst s) (fst s1)"
    using a frame_refl by (rule renderLayer_frame)
  then have "length (fst s1) = length (fst s)"
    by (simp add: list_all2_lengthD)
  then have "\<forall>l\<in>set ls. fst l \<le> snd l \<and> snd l \<le> length (fst s1)"
    using Cons.prems by simp
  from Cons.IH [OF this] show ?case
    using a by simp
qed

text \<open>
  C9. A render pass over a scene graph whose layer ranges lie in its item vector returns.
  Whenever it returns, the item vector has its length and every item is unchanged except
  for the label cache: an item that is no label is the same item, and a label differs at
  most in its bounding box and its flag, and only when it had no fine bounding box before
  and has one afterwards. Drawing a label leaves the flag set, and leaves a label whose
  flag was set as it is.
\<close>

theorem render_frame:
  "(validLayerOffsets sg \<longrightarrow>
      (\<exists>items' painter'. render ext rext view sg painter = Inr (items', painter'))) \<and>
   (\<forall>items' painter'. render ext rext view sg painter = Inr (items', painter') \<longrightarrow>
      list_all2 unchangedExceptLabelCache (sg_items sg) items') \<and>
   label_hasFineBbox (fst (renderLabel ext rext view l p)) \<and>
   (label_hasFineBbox l \<longrightarrow> fst (renderLabel ext rext view l p) = l)"
proof (intro conjI allI impI)
  let ?s0 = "(sg_items sg, renderBackground view (sg_backgroundColor sg) (beginRender painter))"
  assume "validLayerOffsets sg"
  then have "\<forall>l\<in>set (sg_layerOffsets sg). fst l \<le> snd l \<and> snd l \<le> length (fst ?s0)"
    by (simp add: validLayerOffsets_def list_all_iff)
  from renderLayers_total [OF this, of ext rext view] obtain s' where
    "renderLayers ext rext view (sg_layerOffsets sg) ?s0 = Inr s'"
    by blast
  then show "\<exists>items' painter'. render ext rext view sg painter = Inr (items', painter')"
    by (simp add: render_def)
next
  fix items' painter'
  let ?s0 = "(sg_items sg, renderBackground view (sg_backgroundColor sg) (beginRender painter))"
  assume "render ext rext view sg painter = Inr (items', painter')"
  then obtain s' where a: "renderLayers ext rext view (sg_layerOffsets sg) ?s0 = Inr s'"
    and b: "items' = fst s'"
    by (auto simp: render_def split: sum.splits)
  have "list_all2 unchangedExceptLabelCache (sg_items sg) (fst ?s0)"
    by (simp add: frame_refl)
  with a show "list_all2 unchangedExceptLabelCache (sg_items sg) items'"
    unfolding b by (rule renderLayers_frame)
next
  show "label_hasFineBbox (fst (renderLabel ext rext view l p))"
    by (simp add: renderLabel_item labelFineBbox_def Let_def)
next
  assume "label_hasFineBbox l"
  then show "fst (renderLabel ext rext view l p) = l"
    by (simp add: renderLabel_item)
qed

lemma ex_render:
  "map_sum id fst (render ex_ext ex_rext ex_view ex_scene [])
     = Inr [ex_square 1 10 1,
            \<lparr>item_element = NodeElement (ex_node 1), item_layer = 0, item_z = 1,
             item_payload = Label (ex_label\<lparr>label_bbox :=
                 \<lparr>rect_x = 3, rect_y = 9 / 2, rect_width = 4, rect_height = 1\<rparr>,
               label_hasFineBbox := True\<rparr>)\<rparr>]"
  by code_simp

theorem render_frame_witness:
  "validLayerOffsets ex_scene \<and>
   map_sum id fst (render ex_ext ex_rext ex_view ex_scene [])
     = Inr [ex_square 1 10 1,
            \<lparr>item_element = NodeElement (ex_node 1), item_layer = 0, item_z = 1,
             item_payload = Label (ex_label\<lparr>label_bbox :=
                 \<lparr>rect_x = 3, rect_y = 9 / 2, rect_width = 4, rect_height = 1\<rparr>,
               label_hasFineBbox := True\<rparr>)\<rparr>] \<and>
   list_all2 unchangedExceptLabelCache (sg_items ex_scene)
     [ex_square 1 10 1,
      \<lparr>item_element = NodeElement (ex_node 1), item_layer = 0, item_z = 1,
       item_payload = Label (ex_label\<lparr>label_bbox :=
           \<lparr>rect_x = 3, rect_y = 9 / 2, rect_width = 4, rect_height = 1\<rparr>,
         label_hasFineBbox := True\<rparr>)\<rparr>] \<and>
   \<not> label_hasFineBbox ex_label \<and>
   label_hasFineBbox (fst (renderLabel ex_ext ex_rext ex_view ex_label [])) \<and>
   fst (renderLabel ex_ext ex_rext ex_view (ex_label\<lparr>label_hasFineBbox := True\<rparr>) [])
     = ex_label\<lparr>label_hasFineBbox := True\<rparr>"
proof -
  have v: "validLayerOffsets ex_scene"
    by (simp add: validLayerOffsets_def ex_scene_def)
  note th = render_frame [of ex_scene ex_ext ex_rext ex_view "[]"]
  from th [of ex_label "[]", THEN conjunct1] v obtain items' painter' where
    r: "render ex_ext ex_rext ex_view ex_scene [] = Inr (items', painter')"
    by blast
  have f: "list_all2 unchangedExceptLabelCache (sg_items ex_scene) items'"
    using th [of ex_label "[]", THEN conjunct2, THEN conjunct1] r by blast
  have i: "Inr items' = map_sum id fst (render ex_ext ex_rext ex_view ex_scene [])"
    unfolding r by simp
  have n: "\<not> label_hasFineBbox ex_label"
    by (simp add: ex_label_def)
  have a: "label_hasFineBbox (fst (renderLabel ex_ext ex_rext ex_view ex_label []))"
    using th [of ex_label "[]"] by blast
  have b: "fst (renderLabel ex_ext ex_rext ex_view (ex_label\<lparr>label_hasFineBbox := True\<rparr>) [])
     = ex_label\<lparr>label_hasFineBbox := True\<rparr>"
    using th [of "ex_label\<lparr>label_hasFineBbox := True\<rparr>" "[]"] by simp
  show ?thesis
    using v f n a b i [unfolded ex_render] ex_render by simp
qed

end
